theory Spec2Isabelle
  imports Main "HOL-Library.AList"
begin

section \<open>Shared types of the MCP client runtime\<close>

text \<open>
  Values that travel through the runtime are plain JavaScript data (configuration
  objects, JSON-RPC payloads, raw primitive descriptions). An object is an association
  list of its own properties in insertion order; \<open>JUndefined\<close> is the value of a
  property that is present but undefined.
\<close>

datatype jsval =
    JUndefined
  | JNull
  | JBool bool
  | JNum int
  | JStr string
  | JArr "jsval list"
  | JObj "(string \<times> jsval) list"

text \<open>The \<open>in\<close> operator and property reads, on the own properties of an object.\<close>

fun has_prop :: "string \<Rightarrow> jsval \<Rightarrow> bool" where
  "has_prop k (JObj ps) = (map_of ps k \<noteq> None)"
| "has_prop k _ = False"

fun get_prop :: "jsval \<Rightarrow> string \<Rightarrow> jsval" where
  "get_prop (JObj ps) k = (case map_of ps k of Some v \<Rightarrow> v | None \<Rightarrow> JUndefined)"
| "get_prop _ k = JUndefined"

text \<open>JavaScript truthiness (\<open>!message\<close>, \<open>x || y\<close>, \<open>if (message)\<close>).\<close>

fun truthy :: "jsval \<Rightarrow> bool" where
  "truthy JUndefined = False"
| "truthy JNull = False"
| "truthy (JBool b) = b"
| "truthy (JNum n) = (n \<noteq> 0)"
| "truthy (JStr s) = (s \<noteq> [])"
| "truthy (JArr _) = True"
| "truthy (JObj _) = True"

text \<open>\<open>typeof v === 'object'\<close>: objects, arrays and null.\<close>

fun typeof_object :: "jsval \<Rightarrow> bool" where
  "typeof_object JNull = True"
| "typeof_object (JArr _) = True"
| "typeof_object (JObj _) = True"
| "typeof_object _ = False"

text \<open>
  \<open>TransportType\<close> is declared in \<open>types/plugin.ts\<close>; its four members are the
  keys of the default plugin configuration in the \<open>McpClient\<close> constructor and the
  \<open>metadata.transportType\<close> of the four plugins.
\<close>

datatype TransportType = stdio | websocket | sse | streamable_http

type_synonym PluginConfig = "(string \<times> jsval) list"

text \<open>
  What the registry and the client see of an \<open>ITransportPlugin\<close>: its metadata, and
  its two configuration checks. In all four plugins of the repository \<open>initialize\<close>
  throws or returns depending on the configuration alone, and \<open>isSupported\<close> is a
  pure predicate; \<open>initialize_ok p c\<close> says that \<open>initialize(c)\<close> returns normally.
\<close>

record Plugin =
  pname :: string
  transportType :: TransportType
  initialize_ok :: "PluginConfig \<Rightarrow> bool"
  isSupported :: "PluginConfig \<Rightarrow> bool"

text \<open>
  External calls and emitted events are recorded, in order, in an effect log, so that
  "is called", "is called once" and "is not called" are statements about the log.
\<close>

datatype Effect =
    CallInitialize string PluginConfig
  | CallPluginDisconnect string
  | CallPluginConnect string PluginConfig
  | CallClientConnect
  | CallClientClose
  | CallGetPrimitives string
  | CallIsHealthy string
  | ClearInterval
  | SetInterval int
  | Emit string

datatype Error =
    UnknownTransport TransportType
  | InitializeFailed string
  | UnsupportedConfig TransportType
  | ConnectFailed
  | HandshakeFailed
  | ConnectTimeout int
  | NotConnected
  | DiscoveryFailed

section \<open>PluginRegistry\<close>

text \<open>
  The two \<open>Map\<close>s of \<open>PluginRegistry\<close> are association lists updated with
  \<open>AList.update\<close>: like \<open>Map.set\<close> it overwrites the value of a present key in place
  and appends a new key at the end, so \<open>listAvailable\<close> returns the keys in insertion
  order.
\<close>

record PluginRegistry =
  plugins :: "(TransportType \<times> Plugin) list"
  initialized :: "(TransportType \<times> bool) list"
  reg_log :: "Effect list"

definition new_registry :: PluginRegistry where
  "new_registry = \<lparr> plugins = [], initialized = [], reg_log = [] \<rparr>"

definition register :: "Plugin \<Rightarrow> PluginRegistry \<Rightarrow> PluginRegistry" where
  "register plugin r =
     (let type = transportType plugin in
      r\<lparr> plugins := AList.update type plugin (plugins r),
         initialized := AList.update type False (initialized r),
         reg_log := reg_log r @ [Emit ''registry:plugin-registered''] \<rparr>)"

definition getPlugin :: "TransportType \<Rightarrow> PluginRegistry \<Rightarrow> Plugin option" where
  "getPlugin type r = map_of (plugins r) type"

text \<open>
  \<open>!this.initialized.get(type)\<close> holds when the flag is absent or false. When
  \<open>initialize\<close> throws, the exception leaves \<open>getInitializedPlugin\<close> before the flag
  is set.
\<close>

definition getInitializedPlugin ::
  "TransportType \<Rightarrow> PluginConfig \<Rightarrow> PluginRegistry \<Rightarrow> (Error + Plugin) \<times> PluginRegistry" where
  "getInitializedPlugin type config r =
     (case map_of (plugins r) type of
        None \<Rightarrow> (Inl (UnknownTransport type), r)
      | Some plugin \<Rightarrow>
          if map_of (initialized r) type \<noteq> Some True then
            (let r1 = r\<lparr> reg_log := reg_log r @ [CallInitialize (pname plugin) config] \<rparr> in
             if initialize_ok plugin config
             then (Inr plugin, r1\<lparr> initialized := AList.update type True (initialized r1) \<rparr>)
             else (Inl (InitializeFailed (pname plugin)), r1))
          else (Inr plugin, r))"

definition listAvailable :: "PluginRegistry \<Rightarrow> TransportType list" where
  "listAvailable r = map fst (plugins r)"

definition isRegistered :: "TransportType \<Rightarrow> PluginRegistry \<Rightarrow> bool" where
  "isRegistered type r = (map_of (plugins r) type \<noteq> None)"

text \<open>
  \<open>unregister\<close> awaits \<open>plugin.disconnect()\<close> inside a \<open>try\<close> whose \<open>catch\<close> only
  prints a warning, so both outcomes of the call continue with the two deletions.
\<close>

definition unregister :: "TransportType \<Rightarrow> PluginRegistry \<Rightarrow> PluginRegistry" where
  "unregister type r =
     (case map_of (plugins r) type of
        None \<Rightarrow> r
      | Some plugin \<Rightarrow>
          r\<lparr> plugins := AList.delete type (plugins r),
             initialized := AList.delete type (initialized r),
             reg_log := reg_log r @ [CallPluginDisconnect (pname plugin)] \<rparr>)"

text \<open>
  \<open>unregisterAll\<close> starts one \<open>unregister\<close> per registered type, in key order, and
  awaits them all. Every \<open>unregister\<close> reads its plugin and calls its \<open>disconnect\<close>
  before the first deletion happens; the keys are distinct, so running them one after
  the other gives the same calls in the same order and the same final maps.
\<close>

definition unregisterAll :: "PluginRegistry \<Rightarrow> PluginRegistry" where
  "unregisterAll r = fold unregister (listAvailable r) r"

datatype RegistryOp =
    OpRegister Plugin
  | OpGetInitialized TransportType PluginConfig
  | OpUnregister TransportType
  | OpUnregisterAll

fun apply_op :: "RegistryOp \<Rightarrow> PluginRegistry \<Rightarrow> PluginRegistry" where
  "apply_op (OpRegister p) r = register p r"
| "apply_op (OpGetInitialized t c) r = snd (getInitializedPlugin t c r)"
| "apply_op (OpUnregister t) r = unregister t r"
| "apply_op OpUnregisterAll r = unregisterAll r"

definition run_ops :: "RegistryOp list \<Rightarrow> PluginRegistry \<Rightarrow> PluginRegistry" where
  "run_ops ops r = fold apply_op ops r"

text \<open>The number of \<open>initialize\<close> calls made on the plugin called \<open>n\<close>.\<close>

definition initialize_calls :: "string \<Rightarrow> Effect list \<Rightarrow> nat" where
  "initialize_calls n l = length (filter (\<lambda>e. case e of CallInitialize m _ \<Rightarrow> m = n | _ \<Rightarrow> False) l)"

text \<open>Every type has a flag exactly when it has a plugin.\<close>

definition reg_inv :: "PluginRegistry \<Rightarrow> bool" where
  "reg_inv r = (fst ` set (initialized r) = fst ` set (plugins r))"

section \<open>StdioPlugin\<close>

text \<open>
  The child process object of Node's \<open>child_process\<close> module, as far as the plugin
  reads and drives it. \<open>killed\<close> is Node's flag of that name: \<open>kill(signal)\<close> sets it
  once the signal has been sent to the child, whether or not the child terminates; on a
  child that has already exited \<open>kill\<close> sends nothing, returns false and leaves the
  flag alone. \<open>running\<close> is the operating system's view of the child, and
  \<open>traps_sigterm\<close> says that the child handles \<open>SIGTERM\<close> without exiting.
\<close>

datatype Signal = SIGTERM | SIGKILL

record ChildProcess =
  spawnfile :: jsval
  spawnargs :: jsval
  spawnenv :: "(string \<times> jsval) list"
  spawncwd :: "jsval option"
  killed :: bool
  exitCode :: "int option"
  signalCode :: "Signal option"
  running :: bool
  traps_sigterm :: bool
  received :: "Signal list"

definition kill :: "Signal \<Rightarrow> ChildProcess \<Rightarrow> ChildProcess" where
  "kill sig p = (if running p then p\<lparr> killed := True, received := received p @ [sig] \<rparr> else p)"

text \<open>
  What the child has done by the time a timer set after the signal fires: \<open>SIGKILL\<close>
  always ends it, \<open>SIGTERM\<close> ends it unless it is trapped.
\<close>

definition settle :: "ChildProcess \<Rightarrow> ChildProcess" where
  "settle p =
     (if running p \<and> SIGKILL \<in> set (received p)
        then p\<lparr> running := False, signalCode := Some SIGKILL \<rparr>
      else if running p \<and> SIGTERM \<in> set (received p) \<and> \<not> traps_sigterm p
        then p\<lparr> running := False, signalCode := Some SIGTERM \<rparr>
      else p)"

text \<open>
  The plugin's four private fields \<open>_transport\<close>, \<open>_process\<close>, \<open>_connected\<close> and
  \<open>_config\<close>. The transport is named by a number. \<open>released\<close> holds the children
  the plugin has dropped its reference to, as it left them, and \<open>closed_transports\<close>
  the transports whose \<open>close\<close> it has called.
\<close>

record StdioPlugin =
  stdio_transport :: "nat option"
  stdio_process :: "ChildProcess option"
  stdio_connected :: bool
  stdio_config :: "PluginConfig option"
  released :: "ChildProcess list"
  transports_created :: nat
  closed_transports :: "nat list"

definition new_StdioPlugin :: StdioPlugin where
  "new_StdioPlugin =
     \<lparr> stdio_transport = None, stdio_process = None, stdio_connected = False,
       stdio_config = None, released = [], transports_created = 0, closed_transports = [] \<rparr>"

definition stdio_isSupported :: "PluginConfig \<Rightarrow> bool" where
  "stdio_isSupported config =
     (case map_of config ''command'' of Some (JStr c) \<Rightarrow> c \<noteq> [] | _ \<Rightarrow> False)"

datatype StdioError = InvalidStdioConfig | StdioConnectFailed

definition stdio_initialize :: "PluginConfig \<Rightarrow> StdioPlugin \<Rightarrow> StdioError option \<times> StdioPlugin" where
  "stdio_initialize config s =
     (if \<not> stdio_isSupported config then (Some InvalidStdioConfig, s)
      else (None, s\<lparr> stdio_config := Some config \<rparr>))"

text \<open>
  \<open>disconnect\<close>. The two \<open>try\<close> blocks only log what they catch, so a throwing
  \<open>_transport.close()\<close> continues like a returning one. Between the \<open>SIGTERM\<close> and
  the test of \<open>killed\<close> lies the one-second timer, during which the child reacts to
  the signal (\<open>settle\<close>); the child's reaction to a \<open>SIGKILL\<close> follows the return.
\<close>

definition stdio_disconnect :: "StdioPlugin \<Rightarrow> StdioPlugin" where
  "stdio_disconnect s =
     (let s1 = s\<lparr> stdio_connected := False \<rparr>;
          s2 = (case stdio_transport s1 of
                  None \<Rightarrow> s1
                | Some t \<Rightarrow> s1\<lparr> closed_transports := closed_transports s1 @ [t],
                                stdio_transport := None \<rparr>);
          s3 = (case stdio_process s2 of
                  None \<Rightarrow> s2
                | Some p \<Rightarrow>
                    (let p1 = settle (kill SIGTERM p);
                         p2 = (if \<not> killed p1 then kill SIGKILL p1 else p1)
                     in s2\<lparr> released := released s2 @ [settle p2],
                            stdio_process := None \<rparr>))
      in s3\<lparr> stdio_config := None \<rparr>)"

definition stdio_isConnected :: "StdioPlugin \<Rightarrow> bool" where
  "stdio_isConnected s =
     (stdio_connected s \<and>
      (case stdio_process s of None \<Rightarrow> False | Some p \<Rightarrow> \<not> killed p))"

definition stdio_isHealthy :: "StdioPlugin \<Rightarrow> bool" where
  "stdio_isHealthy s =
     (if \<not> stdio_isConnected s then False
      else (case stdio_process s of
              None \<Rightarrow> False
            | Some p \<Rightarrow> \<not> killed p \<and> exitCode p = None))"

text \<open>
  What \<open>connect\<close> takes from its surroundings: the parent's environment
  (\<open>process.env\<close>), whether \<open>spawn\<close> throws, and how the spawned child treats
  \<open>SIGTERM\<close>.
\<close>

record SpawnEnv =
  process_env :: "(string \<times> jsval) list"
  spawn_throws :: bool
  child_traps_sigterm :: bool

text \<open>A destructuring default applies when the property is absent or undefined.\<close>

definition with_default :: "jsval \<Rightarrow> jsval \<Rightarrow> jsval" where
  "with_default v d = (if v = JUndefined then d else v)"

definition object_entries :: "jsval \<Rightarrow> (string \<times> jsval) list" where
  "object_entries v = (case v of JObj ps \<Rightarrow> ps | _ \<Rightarrow> [])"

text \<open>
  \<open>connect\<close>. The first promise of the \<open>Promise.race\<close> sets \<open>_connected\<close> and
  resolves inside its executor, so the race is won before the timeout promise can
  reject; the only failure inside the \<open>try\<close> is a throwing \<open>spawn\<close>. A child that
  \<open>_process\<close> still referred to is dropped when the new one is stored.
\<close>

definition stdio_connect ::
  "PluginConfig \<Rightarrow> SpawnEnv \<Rightarrow> StdioPlugin \<Rightarrow> (StdioError + nat) \<times> StdioPlugin" where
  "stdio_connect config e s =
     (if stdio_connected s \<and> stdio_transport s \<noteq> None then (Inr (the (stdio_transport s)), s)
      else if \<not> stdio_isSupported config then (Inl InvalidStdioConfig, s)
      else if spawn_throws e then (Inl StdioConnectFailed, stdio_disconnect s)
      else
        (let command = get_prop (JObj config) ''command'';
             args = with_default (get_prop (JObj config) ''args'') (JArr []);
             env = with_default (get_prop (JObj config) ''env'') (JObj []);
             cwd = get_prop (JObj config) ''cwd'';
             processEnv = AList.merge (filter (\<lambda>(k, v). v \<noteq> JUndefined) (process_env e))
                            (object_entries env);
             child = \<lparr> spawnfile = command, spawnargs = args, spawnenv = processEnv,
                       spawncwd = (if truthy cwd then Some cwd else None),
                       killed = False, exitCode = None, signalCode = None, running = True,
                       traps_sigterm = child_traps_sigterm e, received = [] \<rparr>;
             t = transports_created s
         in (Inr t,
             s\<lparr> stdio_process := Some child,
                released := released s @ (case stdio_process s of None \<Rightarrow> [] | Some p \<Rightarrow> [p]),
                stdio_transport := Some t,
                transports_created := Suc t,
                stdio_connected := True,
                stdio_config := Some config \<rparr>)))"

text \<open>
  The handlers \<open>connect\<close> installs on the child: an \<open>exit\<close> (with its code, or
  none when a signal ended the child) or an \<open>error\<close> event clears \<open>_connected\<close>.
\<close>

definition stdio_on_exit :: "int option \<Rightarrow> StdioPlugin \<Rightarrow> StdioPlugin" where
  "stdio_on_exit code s =
     s\<lparr> stdio_process :=
          map_option (\<lambda>p. p\<lparr> running := False, exitCode := code \<rparr>) (stdio_process s),
        stdio_connected := False \<rparr>"

definition stdio_on_error :: "StdioPlugin \<Rightarrow> StdioPlugin" where
  "stdio_on_error s = s\<lparr> stdio_connected := False \<rparr>"

text \<open>The plugin as the registry and the client see it.\<close>

definition StdioPlugin_face :: Plugin where
  "StdioPlugin_face =
     \<lparr> pname = ''stdio'', transportType = stdio,
       initialize_ok = stdio_isSupported, isSupported = stdio_isSupported \<rparr>"

section \<open>WebSocketTransport\<close>

datatype ReadyState = CONNECTING | OPEN | CLOSING | CLOSED

record WebSocketTransportConfig =
  url :: string
  protocols :: "string list"
  reconnectAttempts :: int
  reconnectDelay :: int

text \<open>The constructor fills in the optional fields (\<open>||\<close> for the protocols, \<open>??\<close> for the numbers).\<close>

definition make_config ::
  "string \<Rightarrow> string list option \<Rightarrow> int option \<Rightarrow> int option \<Rightarrow> WebSocketTransportConfig" where
  "make_config u ps attempts delay =
     \<lparr> url = u,
       protocols = (case ps of None \<Rightarrow> [''mcp''] | Some l \<Rightarrow> l),
       reconnectAttempts = (case attempts of None \<Rightarrow> 3 | Some n \<Rightarrow> n),
       reconnectDelay = (case delay of None \<Rightarrow> 1000 | Some d \<Rightarrow> d) \<rparr>"

datatype WsError =
    InvalidReceived
  | ParseFailed
  | SocketError
  | ReconnectFailed nat
  | FlushFailed
  | InvalidFormat

text \<open>
  What the transport does to the outside, in order: the calls of the three callbacks,
  the frames handed to the socket, the sockets it opens and closes, the timers it sets
  and clears, and the settlement of the promise of \<open>start\<close>.
\<close>

datatype WsOutput =
    Delivered jsval
  | ErrorReported WsError
  | CloseNotified
  | SocketSend jsval
  | SocketCreated
  | SocketCloseCalled
  | TimerSet int
  | TimerCleared
  | StartResolved
  | StartRejected

text \<open>
  Every \<open>connect()\<close> returns a promise that the socket's \<open>onopen\<close> resolves and its
  \<open>onerror\<close> rejects; \<open>pending\<close> records who awaits the promise of the current socket,
  until it is settled.
\<close>

datatype Caller = FromStart | FromTimer

text \<open>
  An inbound frame: \<open>JSON.parse\<close> either throws or returns a value. A callback
  \<open>onmessage\<close> is given by what it does with a message: return (\<open>True\<close>) or throw.
  \<open>deferred\<close> holds the errors of rejected \<open>send\<close> promises whose \<open>catch\<close>
  callbacks have not run yet: they run when the current handler has returned.
\<close>

datatype Payload = Unparsable | Parsed jsval

record WebSocketTransport =
  ws :: "ReadyState option"
  config :: WebSocketTransportConfig
  messageQueue :: "jsval list"
  reconnectCount :: nat
  reconnectTimer :: "int option"
  isStarted :: bool
  isClosed :: bool
  onmessage :: "(jsval \<Rightarrow> bool) option"
  onclose :: bool
  onerror :: bool
  pending :: "Caller option"
  deferred :: "WsError list"
  out :: "WsOutput list"

definition new_WebSocketTransport :: "WebSocketTransportConfig \<Rightarrow> WebSocketTransport" where
  "new_WebSocketTransport c =
     \<lparr> ws = None, config = c, messageQueue = [], reconnectCount = 0, reconnectTimer = None,
       isStarted = False, isClosed = False, onmessage = None, onclose = False,
       onerror = False, pending = None, deferred = [], out = [] \<rparr>"

definition emit_out :: "WsOutput \<Rightarrow> WebSocketTransport \<Rightarrow> WebSocketTransport" where
  "emit_out x s = s\<lparr> out := out s @ [x] \<rparr>"

definition handleError :: "WsError \<Rightarrow> WebSocketTransport \<Rightarrow> WebSocketTransport" where
  "handleError e s = (if onerror s then emit_out (ErrorReported e) s else s)"

definition isValidJSONRPCMessage :: "jsval \<Rightarrow> bool" where
  "isValidJSONRPCMessage message =
     (if \<not> truthy message \<or> \<not> typeof_object message then False
      else if get_prop message ''jsonrpc'' \<noteq> JStr ''2.0'' then False
      else
        (let hasMethod = has_prop ''method'' message;
             hasId = has_prop ''id'' message;
             hasResult = has_prop ''result'' message;
             hasError = has_prop ''error'' message;
             isRequest = (hasMethod \<and> hasId);
             isNotification = (hasMethod \<and> \<not> hasId);
             isResponse = (hasId \<and> (hasResult \<or> hasError))
         in isRequest \<or> isNotification \<or> isResponse))"

definition ws_isConnected :: "WebSocketTransport \<Rightarrow> bool" where
  "ws_isConnected s = (ws s = Some OPEN)"

definition getQueueSize :: "WebSocketTransport \<Rightarrow> nat" where
  "getQueueSize s = length (messageQueue s)"

text \<open>
  \<open>send\<close>. The branch that hands the frame to the socket runs only on an open socket,
  where \<open>WebSocket.send\<close> does not throw, and a message is JSON data, which
  \<open>JSON.stringify\<close> accepts.
\<close>

definition send :: "jsval \<Rightarrow> WebSocketTransport \<Rightarrow> (WsError + unit) \<times> WebSocketTransport" where
  "send message s =
     (if \<not> isValidJSONRPCMessage message then (Inl InvalidFormat, s)
      else if ws s \<noteq> Some OPEN then (Inr (), s\<lparr> messageQueue := messageQueue s @ [message] \<rparr>)
      else (Inr (), emit_out (SocketSend message) s))"

text \<open>
  \<open>flushMessageQueue\<close>. \<open>send\<close> has no \<open>await\<close>, so each call runs to its end inside
  the loop; a rejected \<open>send\<close> reaches \<open>handleError\<close> through its \<open>catch\<close>, after
  the loop and the handler around it.
\<close>

definition flush_one :: "jsval \<Rightarrow> WebSocketTransport \<Rightarrow> WebSocketTransport" where
  "flush_one message s =
     (if truthy message then
        (case send message s of
           (Inl e, s') \<Rightarrow> s'\<lparr> deferred := deferred s' @ [FlushFailed] \<rparr>
         | (Inr u, s') \<Rightarrow> s')
      else s)"

definition run_deferred :: "WebSocketTransport \<Rightarrow> WebSocketTransport" where
  "run_deferred s = fold handleError (deferred s) (s\<lparr> deferred := [] \<rparr>)"

function flushMessageQueue :: "WebSocketTransport \<Rightarrow> WebSocketTransport" where
  "flushMessageQueue s =
     (if messageQueue s \<noteq> [] \<and> ws s = Some OPEN
      then flushMessageQueue
             (flush_one (hd (messageQueue s)) (s\<lparr> messageQueue := tl (messageQueue s) \<rparr>))
      else s)"
  by pat_completeness auto
termination
  by (relation "measure (\<lambda>s. length (messageQueue s))")
    (auto simp: flush_one_def send_def emit_out_def)

declare flushMessageQueue.simps [simp del]

text \<open>Settling the promise of the current \<open>connect()\<close>.\<close>

definition resolve_pending :: "WebSocketTransport \<Rightarrow> WebSocketTransport" where
  "resolve_pending s =
     (case pending s of
        None \<Rightarrow> s
      | Some FromStart \<Rightarrow> emit_out StartResolved (s\<lparr> pending := None \<rparr>)
      | Some FromTimer \<Rightarrow> s\<lparr> pending := None \<rparr>)"

definition reject_pending :: "WebSocketTransport \<Rightarrow> WebSocketTransport" where
  "reject_pending s =
     (case pending s of
        None \<Rightarrow> s
      | Some FromStart \<Rightarrow> emit_out StartRejected (s\<lparr> pending := None \<rparr>)
      | Some FromTimer \<Rightarrow> handleError (ReconnectFailed (reconnectCount s)) (s\<lparr> pending := None \<rparr>))"

text \<open>\<open>connect\<close>: \<open>ctor_ok\<close> says that \<open>new WebSocket(url, protocols)\<close> returns.\<close>

definition ws_connect :: "Caller \<Rightarrow> bool \<Rightarrow> WebSocketTransport \<Rightarrow> WebSocketTransport" where
  "ws_connect caller ctor_ok s =
     (if ctor_ok
      then emit_out SocketCreated (s\<lparr> ws := Some CONNECTING, pending := Some caller \<rparr>)
      else reject_pending (s\<lparr> pending := Some caller \<rparr>))"

definition start :: "bool \<Rightarrow> WebSocketTransport \<Rightarrow> WebSocketTransport" where
  "start ctor_ok s =
     (if isStarted s then s
      else ws_connect FromStart ctor_ok (s\<lparr> isStarted := True, isClosed := False \<rparr>))"

definition scheduleReconnect :: "WebSocketTransport \<Rightarrow> WebSocketTransport" where
  "scheduleReconnect s =
     (if reconnectTimer s \<noteq> None then s
      else
        (let s1 = s\<lparr> reconnectCount := reconnectCount s + 1 \<rparr>;
             delay = reconnectDelay (config s1) * 2 ^ (reconnectCount s1 - 1)
         in emit_out (TimerSet delay) (s1\<lparr> reconnectTimer := Some delay \<rparr>)))"

text \<open>
  The four socket events and the timer. The socket the transport holds is open when
  \<open>onopen\<close> runs. The timer callback runs only while the timer is set (\<open>close\<close>
  clears it).
\<close>

definition on_open :: "WebSocketTransport \<Rightarrow> WebSocketTransport" where
  "on_open s =
     run_deferred
       (resolve_pending
         (flushMessageQueue
           (s\<lparr> ws := map_option (\<lambda>r. OPEN) (ws s), reconnectCount := 0 \<rparr>)))"

definition on_message :: "Payload \<Rightarrow> WebSocketTransport \<Rightarrow> WebSocketTransport" where
  "on_message p s =
     (case p of
        Unparsable \<Rightarrow> handleError ParseFailed s
      | Parsed message \<Rightarrow>
          if \<not> isValidJSONRPCMessage message then handleError InvalidReceived s
          else
            (case onmessage s of
               None \<Rightarrow> s
             | Some h \<Rightarrow>
                 (let s1 = emit_out (Delivered message) s
                  in if h message then s1 else handleError ParseFailed s1)))"

definition on_close :: "WebSocketTransport \<Rightarrow> WebSocketTransport" where
  "on_close s =
     (let s1 = s\<lparr> ws := None \<rparr> in
      if \<not> isClosed s1 \<and> int (reconnectCount s1) < reconnectAttempts (config s1)
      then scheduleReconnect s1
      else if onclose s1 then emit_out CloseNotified s1 else s1)"

definition on_error :: "WebSocketTransport \<Rightarrow> WebSocketTransport" where
  "on_error s = reject_pending (handleError SocketError s)"

definition on_timer :: "bool \<Rightarrow> WebSocketTransport \<Rightarrow> WebSocketTransport" where
  "on_timer ctor_ok s =
     (if reconnectTimer s = None then s
      else ws_connect FromTimer ctor_ok (s\<lparr> reconnectTimer := None \<rparr>))"

definition close :: "WebSocketTransport \<Rightarrow> WebSocketTransport" where
  "close s =
     (let s1 = s\<lparr> isClosed := True, isStarted := False \<rparr>;
          s2 = (if reconnectTimer s1 \<noteq> None
                then emit_out TimerCleared (s1\<lparr> reconnectTimer := None \<rparr>) else s1);
          s3 = (if ws s2 \<noteq> None then emit_out SocketCloseCalled (s2\<lparr> ws := None \<rparr>) else s2);
          s4 = s3\<lparr> messageQueue := [] \<rparr>
      in if onclose s4 then emit_out CloseNotified s4 else s4)"

datatype WsEvent = EvOpen | EvMessage Payload | EvClose | EvError | EvTimer bool

fun ws_step :: "WsEvent \<Rightarrow> WebSocketTransport \<Rightarrow> WebSocketTransport" where
  "ws_step EvOpen s = on_open s"
| "ws_step (EvMessage p) s = on_message p s"
| "ws_step EvClose s = on_close s"
| "ws_step EvError s = on_error s"
| "ws_step (EvTimer ctor_ok) s = on_timer ctor_ok s"

definition ws_run :: "WsEvent list \<Rightarrow> WebSocketTransport \<Rightarrow> WebSocketTransport" where
  "ws_run evs s = fold ws_step evs s"

text \<open>
  A reconnection attempt that fails: the timer fires and opens a socket, which closes
  without ever opening, after an \<open>error\<close> event or without one.
\<close>

definition failed_attempt :: "bool \<Rightarrow> WsEvent list" where
  "failed_attempt with_error = EvTimer True # (if with_error then [EvError] else []) @ [EvClose]"

definition timers_set :: "WsOutput list \<Rightarrow> int list" where
  "timers_set l = concat (map (\<lambda>x. case x of TimerSet d \<Rightarrow> [d] | _ \<Rightarrow> []) l)"

definition close_notifications :: "WsOutput list \<Rightarrow> nat" where
  "close_notifications l = length (filter (\<lambda>x. x = CloseNotified) l)"

definition frames_sent :: "WsOutput list \<Rightarrow> jsval list" where
  "frames_sent l = concat (map (\<lambda>x. case x of SocketSend m \<Rightarrow> [m] | _ \<Rightarrow> []) l)"

text \<open>Sending a list of messages, one call after the other, with the results of the calls.\<close>

fun send_all :: "jsval list \<Rightarrow> WebSocketTransport \<Rightarrow> (WsError + unit) list \<times> WebSocketTransport" where
  "send_all [] s = ([], s)"
| "send_all (m # ms) s =
     (case send m s of (r, s1) \<Rightarrow> (case send_all ms s1 of (rs, s2) \<Rightarrow> (r # rs, s2)))"

section \<open>McpClient\<close>

subsection \<open>Normalised primitives\<close>

text \<open>
  \<open>String(v)\<close> on JSON data. Numbers are integers here and print in decimal.
\<close>

definition digit_char :: "nat \<Rightarrow> char" where
  "digit_char n = ''0123456789'' ! (n mod 10)"

fun show_nat :: "nat \<Rightarrow> string" where
  "show_nat n = (if n < 10 then [digit_char n] else show_nat (n div 10) @ [digit_char n])"

declare show_nat.simps [simp del]

definition show_int :: "int \<Rightarrow> string" where
  "show_int i = (if i < 0 then CHR ''-'' # show_nat (nat (- i)) else show_nat (nat i))"

fun join_comma :: "string list \<Rightarrow> string" where
  "join_comma [] = []"
| "join_comma [x] = x"
| "join_comma (x # y # ys) = x @ '','' @ join_comma (y # ys)"

definition nullish :: "jsval \<Rightarrow> bool" where
  "nullish v = (v = JUndefined \<or> v = JNull)"

fun js_String :: "jsval \<Rightarrow> string" where
  "js_String JUndefined = ''undefined''"
| "js_String JNull = ''null''"
| "js_String (JBool b) = (if b then ''true'' else ''false'')"
| "js_String (JNum n) = show_int n"
| "js_String (JStr s) = s"
| "js_String (JArr xs) = join_comma (map (\<lambda>v. if nullish v then [] else js_String v) xs)"
| "js_String (JObj ps) = ''[object Object]''"

text \<open>\<open>a || b\<close>.\<close>

definition or_else :: "jsval \<Rightarrow> jsval \<Rightarrow> jsval" where
  "or_else a b = (if truthy a then a else b)"

datatype PrimitiveType = tool | resource | prompt

record Primitive =
  ptype :: PrimitiveType
  pvalue :: jsval

record NormalizedTool =
  tool_name :: string
  tool_description :: string
  inputSchema :: jsval

record NormalizedResource =
  uri :: string
  resource_name :: string
  resource_description :: "string option"
  mimeType :: "string option"

record NormalizedPrompt =
  prompt_name :: string
  prompt_description :: "string option"
  arguments :: jsval

record PrimitivesResponse =
  tools :: "NormalizedTool list"
  resources :: "NormalizedResource list"
  prompts :: "NormalizedPrompt list"
  timestamp :: int

definition optional_String :: "jsval \<Rightarrow> string option" where
  "optional_String v = (if truthy v then Some (js_String v) else None)"

definition normalizeTools :: "Primitive list \<Rightarrow> NormalizedTool list" where
  "normalizeTools primitives =
     map (\<lambda>p. let t = pvalue p in
            \<lparr> tool_name = js_String (or_else (get_prop t ''name'') (JStr [])),
              tool_description = js_String (or_else (get_prop t ''description'') (JStr [])),
              inputSchema = or_else (get_prop t ''inputSchema'')
                              (or_else (get_prop t ''input_schema'') (JObj [])) \<rparr>)
       primitives"

definition normalizeResources :: "Primitive list \<Rightarrow> NormalizedResource list" where
  "normalizeResources primitives =
     map (\<lambda>p. let r = pvalue p in
            \<lparr> uri = js_String (or_else (get_prop r ''uri'') (JStr [])),
              resource_name = js_String (or_else (get_prop r ''name'') (JStr [])),
              resource_description = optional_String (get_prop r ''description''),
              mimeType = optional_String (get_prop r ''mimeType'') \<rparr>)
       primitives"

definition normalizePrompts :: "Primitive list \<Rightarrow> NormalizedPrompt list" where
  "normalizePrompts primitives =
     map (\<lambda>p. let q = pvalue p in
            \<lparr> prompt_name = js_String (or_else (get_prop q ''name'') (JStr [])),
              prompt_description = optional_String (get_prop q ''description''),
              arguments = get_prop q ''arguments'' \<rparr>)
       primitives"

subsection \<open>State and lifecycle\<close>

text \<open>
  The fields of \<open>McpClient\<close>. Of \<open>this.config\<close> the client reads the per-type
  plugin defaults and the health-check interval. \<open>client\<close> and \<open>activeTransport\<close>
  are references to objects of the protocol SDK, \<open>connectionPromise\<close> is the identity
  of the promise it holds, \<open>healthCheckTimer\<close> the interval of the timer it holds.
\<close>

record McpClient =
  registry :: PluginRegistry
  plugin_defaults :: "TransportType \<Rightarrow> PluginConfig"
  healthCheckInterval :: int
  client :: "nat option"
  activePlugin :: "Plugin option"
  activeTransport :: "nat option"
  isConnectedFlag :: bool
  connectionPromise :: "nat option"
  healthCheckTimer :: "int option"
  primitivesCache :: "PrimitivesResponse option"
  primitivesCacheTime :: int
  clients_created :: nat
  effects :: "Effect list"

definition CACHE_TTL :: int where
  "CACHE_TTL = 300000"

definition default_plugin_config :: "TransportType \<Rightarrow> PluginConfig" where
  "default_plugin_config t =
     (case t of
        stdio \<Rightarrow> [(''command'', JStr []), (''args'', JArr []), (''env'', JObj []),
                  (''timeout'', JNum 10000)]
      | websocket \<Rightarrow> [(''url'', JStr []), (''protocols'', JArr [JStr ''mcp'']),
                      (''reconnectAttempts'', JNum 3), (''reconnectDelay'', JNum 1000)]
      | sse \<Rightarrow> [(''url'', JStr []), (''timeout'', JNum 30000)]
      | streamable_http \<Rightarrow> [(''url'', JStr []), (''timeout'', JNum 30000)])"

definition new_McpClient :: McpClient where
  "new_McpClient =
     \<lparr> registry = new_registry, plugin_defaults = default_plugin_config,
       healthCheckInterval = 30000, client = None, activePlugin = None,
       activeTransport = None, isConnectedFlag = False, connectionPromise = None,
       healthCheckTimer = None, primitivesCache = None, primitivesCacheTime = 0,
       clients_created = 0, effects = [Emit ''client:initialized''] \<rparr>"

definition add_effect :: "Effect \<Rightarrow> McpClient \<Rightarrow> McpClient" where
  "add_effect x s = s\<lparr> effects := effects s @ [x] \<rparr>"

text \<open>The constructor forwards the registry's registration event.\<close>

definition registerPlugin :: "Plugin \<Rightarrow> McpClient \<Rightarrow> McpClient" where
  "registerPlugin plugin s =
     add_effect (Emit ''registry:plugin-registered'')
       (s\<lparr> registry := register plugin (registry s) \<rparr>)"

definition clearPrimitivesCache :: "McpClient \<Rightarrow> McpClient" where
  "clearPrimitivesCache s = s\<lparr> primitivesCache := None, primitivesCacheTime := 0 \<rparr>"

definition isCacheValid :: "int \<Rightarrow> McpClient \<Rightarrow> bool" where
  "isCacheValid now s = (now - primitivesCacheTime s < CACHE_TTL)"

definition startHealthMonitoring :: "McpClient \<Rightarrow> McpClient" where
  "startHealthMonitoring s =
     (let interval = healthCheckInterval s in
      if interval \<le> 0 then s
      else add_effect (SetInterval interval) (s\<lparr> healthCheckTimer := Some interval \<rparr>))"

definition stopHealthMonitoring :: "McpClient \<Rightarrow> McpClient" where
  "stopHealthMonitoring s =
     (if healthCheckTimer s \<noteq> None
      then add_effect ClearInterval (s\<lparr> healthCheckTimer := None \<rparr>) else s)"

text \<open>
  \<open>cleanup\<close>. Both \<open>try\<close> blocks only warn about what they catch, so a throwing
  \<open>client.close()\<close> or \<open>plugin.disconnect()\<close> continues like a returning one.
\<close>

definition cleanup :: "McpClient \<Rightarrow> McpClient" where
  "cleanup s =
     (let s1 = stopHealthMonitoring s;
          s2 = (case client s1 of
                  None \<Rightarrow> s1
                | Some c \<Rightarrow> (add_effect CallClientClose s1)\<lparr> client := None \<rparr>);
          s3 = (case activePlugin s2 of
                  None \<Rightarrow> s2
                | Some p \<Rightarrow> (add_effect (CallPluginDisconnect (pname p)) s2)\<lparr> activePlugin := None \<rparr>)
      in clearPrimitivesCache (s3\<lparr> activeTransport := None, isConnectedFlag := False \<rparr>))"

text \<open>
  What one connection attempt meets outside the client: \<open>plugin.connect\<close> returns a
  transport or throws, and the race between \<open>client.connect(transport)\<close> and the
  30-second timer ends in one of three ways.
\<close>

datatype Handshake = HandshakeOk | HandshakeRejected | HandshakeTimedOut

record ConnEnv =
  plugin_connect :: "nat option"
  handshake :: Handshake

type_synonym ConnectionRequest = "TransportType \<times> PluginConfig"

text \<open>
  \<open>performConnection\<close> in two parts. \<open>performConnection_begin\<close> is the stretch that
  runs inside the caller, up to the first \<open>await\<close>; \<open>performConnection_finish\<close> is
  the rest, up to the settlement of the promise: the \<open>try\<close> block
  (\<open>connection_body\<close>) and, when it throws, the \<open>catch\<close> block.
\<close>

definition performConnection_begin :: "ConnectionRequest \<Rightarrow> McpClient \<Rightarrow> McpClient" where
  "performConnection_begin request s = add_effect (Emit ''client:connecting'') s"

definition connection_body ::
  "ConnectionRequest \<Rightarrow> ConnEnv \<Rightarrow> McpClient \<Rightarrow> (Error + unit) \<times> McpClient" where
  "connection_body request e s =
     (let type = fst request;
          finalConfig = AList.merge (plugin_defaults s type) (snd request)
      in case getInitializedPlugin type finalConfig (registry s) of
           (Inl err, r1) \<Rightarrow> (Inl err, s\<lparr> registry := r1 \<rparr>)
         | (Inr plugin, r1) \<Rightarrow>
             (let s1 = s\<lparr> registry := r1 \<rparr> in
              if \<not> isSupported plugin finalConfig then (Inl (UnsupportedConfig type), s1)
              else
                (let s2 = add_effect (CallPluginConnect (pname plugin) finalConfig) s1 in
                 case plugin_connect e of
                   None \<Rightarrow> (Inl ConnectFailed, s2)
                 | Some transport \<Rightarrow>
                     (let s3 = add_effect CallClientConnect
                                 (s2\<lparr> client := Some (clients_created s2),
                                     clients_created := Suc (clients_created s2) \<rparr>)
                      in case handshake e of
                           HandshakeRejected \<Rightarrow> (Inl HandshakeFailed, s3)
                         | HandshakeTimedOut \<Rightarrow> (Inl (ConnectTimeout 30000), s3)
                         | HandshakeOk \<Rightarrow>
                             (Inr (),
                              add_effect (Emit ''connection:status-changed'')
                                (add_effect (Emit ''client:connected'')
                                  (startHealthMonitoring
                                    (clearPrimitivesCache
                                      (s3\<lparr> activePlugin := Some plugin,
                                          activeTransport := Some transport,
                                          isConnectedFlag := True \<rparr>)))))))))"

definition performConnection_finish ::
  "ConnectionRequest \<Rightarrow> ConnEnv \<Rightarrow> McpClient \<Rightarrow> (Error + unit) \<times> McpClient" where
  "performConnection_finish request e s =
     (case connection_body request e s of
        (Inr u, s1) \<Rightarrow> (Inr (), s1)
      | (Inl err, s1) \<Rightarrow>
          (Inl err,
           add_effect (Emit ''connection:status-changed'')
             (add_effect (Emit ''client:error'') (cleanup s1))))"

definition performConnection ::
  "ConnectionRequest \<Rightarrow> ConnEnv \<Rightarrow> McpClient \<Rightarrow> (Error + unit) \<times> McpClient" where
  "performConnection request e s =
     performConnection_finish request e (performConnection_begin request s)"

text \<open>\<open>disconnect\<close>; \<open>cleanup\<close> cannot throw, so the \<open>catch\<close> block is never entered.\<close>

definition disconnect :: "McpClient \<Rightarrow> McpClient" where
  "disconnect s =
     (if \<not> isConnectedFlag s then s
      else
        (let currentType = map_option transportType (activePlugin s);
             s1 = (if currentType \<noteq> None then add_effect (Emit ''client:disconnecting'') s else s);
             s2 = cleanup s1;
             s3 = (if currentType \<noteq> None then add_effect (Emit ''client:disconnected'') s2 else s2)
         in add_effect (Emit ''connection:status-changed'') s3))"

text \<open>
  The same \<open>disconnect\<close>, one stretch between two \<open>await\<close>s at a time, for the calls
  that overlap with others. A \<open>DState\<close> says where a call of \<open>disconnect\<close> is
  suspended, with its local \<open>currentType\<close>: at \<open>await this.client.close()\<close>
  (line 237), at \<open>await this.activePlugin.disconnect()\<close> (line 246), at
  \<open>await this.cleanup()\<close> (line 213) with \<open>cleanup\<close> already at its end, or
  nowhere (it has returned). \<open>cleanup\<close> clears \<open>activePlugin\<close> only after the
  second \<open>await\<close> and the connected flag last.
\<close>

datatype DState =
    DAtClientClose "TransportType option"
  | DAtPluginDisconnect "TransportType option"
  | DAtCleanupDone "TransportType option"
  | DReturned

text \<open>Lines 253 to 255.\<close>

definition cleanup_end :: "McpClient \<Rightarrow> McpClient" where
  "cleanup_end s = clearPrimitivesCache (s\<lparr> activeTransport := None, isConnectedFlag := False \<rparr>)"

text \<open>From line 244 to the next \<open>await\<close>.\<close>

definition cleanup_from_plugin :: "TransportType option \<Rightarrow> McpClient \<Rightarrow> DState \<times> McpClient" where
  "cleanup_from_plugin currentType s =
     (case activePlugin s of
        None \<Rightarrow> (DAtCleanupDone currentType, cleanup_end s)
      | Some p \<Rightarrow> (DAtPluginDisconnect currentType, add_effect (CallPluginDisconnect (pname p)) s))"

text \<open>The call of \<open>disconnect\<close>, up to its first \<open>await\<close> or its early return.\<close>

definition disconnect_begin :: "McpClient \<Rightarrow> DState \<times> McpClient" where
  "disconnect_begin s =
     (if \<not> isConnectedFlag s then (DReturned, s)
      else
        (let currentType = map_option transportType (activePlugin s);
             s1 = (if currentType \<noteq> None then add_effect (Emit ''client:disconnecting'') s else s);
             s2 = stopHealthMonitoring s1
         in if client s2 \<noteq> None then (DAtClientClose currentType, add_effect CallClientClose s2)
            else cleanup_from_plugin currentType s2))"

text \<open>The awaited promise has settled and \<open>disconnect\<close> runs on to its next \<open>await\<close>.\<close>

definition disconnect_step :: "DState \<Rightarrow> McpClient \<Rightarrow> DState \<times> McpClient" where
  "disconnect_step d s =
     (case d of
        DAtClientClose currentType \<Rightarrow> cleanup_from_plugin currentType (s\<lparr> client := None \<rparr>)
      | DAtPluginDisconnect currentType \<Rightarrow>
          (DAtCleanupDone currentType, cleanup_end (s\<lparr> activePlugin := None \<rparr>))
      | DAtCleanupDone currentType \<Rightarrow>
          (DReturned,
           add_effect (Emit ''connection:status-changed'')
             (if currentType \<noteq> None then add_effect (Emit ''client:disconnected'') s else s))
      | DReturned \<Rightarrow> (DReturned, s))"

text \<open>\<open>isHealthy\<close>: the plugin's answer is \<open>Some b\<close>, or \<open>None\<close> when its probe throws.\<close>

definition isHealthy :: "bool option \<Rightarrow> McpClient \<Rightarrow> bool \<times> McpClient" where
  "isHealthy probe s =
     (case activePlugin s of
        None \<Rightarrow> (False, s)
      | Some p \<Rightarrow>
          if \<not> isConnectedFlag s then (False, s)
          else (case probe of Some b \<Rightarrow> b | None \<Rightarrow> False, add_effect (CallIsHealthy (pname p)) s))"

definition getConnectionInfo :: "McpClient \<Rightarrow> bool \<times> TransportType option" where
  "getConnectionInfo s = (isConnectedFlag s, map_option transportType (activePlugin s))"

subsection \<open>getPrimitives\<close>

text \<open>
  What one call of \<open>getPrimitives\<close> meets outside the client: the three readings of
  \<open>Date.now()\<close> (in \<open>isCacheValid\<close>, for the timestamp, for the cache time), the
  plugin's discovery (\<open>None\<close>: it throws) and the plugin's health probe.
\<close>

record GpEnv =
  now_check :: int
  now_stamp :: int
  now_store :: int
  discovery :: "Primitive list option"
  health_probe :: "bool option"

text \<open>The \<open>catch\<close> block of \<open>getPrimitives\<close>: a health probe, and demotion when it fails.\<close>

definition discovery_failed :: "GpEnv \<Rightarrow> McpClient \<Rightarrow> McpClient" where
  "discovery_failed e s =
     (case isHealthy (health_probe e) s of
        (True, s1) \<Rightarrow> s1
      | (False, s1) \<Rightarrow>
          add_effect (Emit ''connection:status-changed'') (s1\<lparr> isConnectedFlag := False \<rparr>))"

text \<open>
  Reading a property of \<open>null\<close> or \<open>undefined\<close> throws, so a primitive with such a
  value sends the normalisation into the \<open>catch\<close> block.
\<close>

definition getPrimitives ::
  "bool \<Rightarrow> GpEnv \<Rightarrow> McpClient \<Rightarrow> (Error + PrimitivesResponse) \<times> McpClient" where
  "getPrimitives forceRefresh e s =
     (case activePlugin s of
        None \<Rightarrow> (Inl NotConnected, s)
      | Some plugin \<Rightarrow>
          if \<not> isConnectedFlag s \<or> client s = None then (Inl NotConnected, s)
          else if \<not> forceRefresh \<and> primitivesCache s \<noteq> None \<and> isCacheValid (now_check e) s
            then (Inr (the (primitivesCache s)), s)
          else
            (let s1 = add_effect (CallGetPrimitives (pname plugin)) s in
             case discovery e of
               None \<Rightarrow> (Inl DiscoveryFailed, discovery_failed e s1)
             | Some primitives \<Rightarrow>
                 if list_ex (\<lambda>p. nullish (pvalue p)) primitives
                 then (Inl DiscoveryFailed, discovery_failed e s1)
                 else
                   (let response =
                          \<lparr> tools = normalizeTools (filter (\<lambda>p. ptype p = tool) primitives),
                            resources = normalizeResources (filter (\<lambda>p. ptype p = resource) primitives),
                            prompts = normalizePrompts (filter (\<lambda>p. ptype p = prompt) primitives),
                            timestamp = now_stamp e \<rparr>
                    in (Inr response,
                        add_effect (Emit ''tools:list-updated'')
                          (s1\<lparr> primitivesCache := Some response,
                              primitivesCacheTime := now_store e \<rparr>)))))"

subsection \<open>connect and its callers\<close>

text \<open>
  \<open>connect\<close> is an \<open>async\<close> function with three \<open>await\<close>s, and several calls of it
  can be under way at once: each runs until its next \<open>await\<close> and is resumed when the
  promise it awaits is settled. A call under way is a \<open>CallerState\<close>: which \<open>await\<close> it
  is suspended at (line 94: the attempt it found pending; line 106: its own
  \<open>disconnect\<close>, with the place that call has reached; line 112: the attempt it
  started), or how it ended. Every call of \<open>performConnection\<close> makes one attempt,
  named by its position in \<open>attempts\<close>, which is also the identity of its promise.
\<close>

datatype CallerState =
    AwaitExisting nat
  | AwaitDisconnect DState
  | AwaitOwn nat
  | Returned
  | Threw Error

datatype AttemptState = Pending ConnectionRequest | Resolved | Rejected Error

record World =
  mc :: McpClient
  callers :: "(ConnectionRequest \<times> CallerState) list"
  attempts :: "AttemptState list"

definition new_World :: "McpClient \<Rightarrow> World" where
  "new_World c = \<lparr> mc = c, callers = [], attempts = [] \<rparr>"

text \<open>\<open>this.isConnectedFlag && this.activePlugin?.metadata.transportType === type\<close>.\<close>

definition connected_via :: "TransportType \<Rightarrow> McpClient \<Rightarrow> bool" where
  "connected_via type s =
     (isConnectedFlag s \<and> map_option transportType (activePlugin s) = Some type)"

definition set_caller ::
  "nat \<Rightarrow> ConnectionRequest \<times> CallerState \<Rightarrow> World \<Rightarrow> World" where
  "set_caller i c w =
     w\<lparr> callers := (if i < length (callers w) then (callers w)[i := c] else callers w @ [c]) \<rparr>"

text \<open>
  Lines 109 to 112: \<open>performConnection\<close> runs up to its first \<open>await\<close>, its promise is
  stored, and the caller awaits it.
\<close>

definition start_attempt :: "ConnectionRequest \<Rightarrow> nat \<Rightarrow> World \<Rightarrow> World" where
  "start_attempt request i w =
     (let pid = length (attempts w)
      in set_caller i (request, AwaitOwn pid)
           (w\<lparr> mc := (performConnection_begin request (mc w))\<lparr> connectionPromise := Some pid \<rparr>,
               attempts := attempts w @ [Pending request] \<rparr>))"

text \<open>
  Lines 103 to 107, then on. When the client is connected over another type,
  \<open>disconnect\<close> is called and runs up to its first \<open>await\<close>; the flag, the active
  plugin and the promise are as before while it is suspended, so another call of
  \<open>connect\<close> made meanwhile still finds the client connected and no attempt pending.
\<close>

definition after_wait :: "ConnectionRequest \<Rightarrow> nat \<Rightarrow> World \<Rightarrow> World" where
  "after_wait request i w =
     (if isConnectedFlag (mc w) \<and>
         map_option transportType (activePlugin (mc w)) \<noteq> Some (fst request)
      then (case disconnect_begin (mc w) of
              (d, c) \<Rightarrow> set_caller i (request, AwaitDisconnect d) (w\<lparr> mc := c \<rparr>))
      else start_attempt request i w)"

text \<open>
  The promise that the \<open>disconnect\<close> of caller \<open>i\<close> awaits has settled, and that
  \<open>disconnect\<close> runs on to its next \<open>await\<close> or to its return.
\<close>

definition advance_disconnect :: "nat \<Rightarrow> World \<Rightarrow> World" where
  "advance_disconnect i w =
     (if i < length (callers w) then
        (case callers w ! i of
           (request, AwaitDisconnect d) \<Rightarrow>
             (case disconnect_step d (mc w) of
                (d', c) \<Rightarrow> set_caller i (request, AwaitDisconnect d') (w\<lparr> mc := c \<rparr>))
         | _ \<Rightarrow> w)
      else w)"

text \<open>A new call of \<open>connect\<close>, up to its first \<open>await\<close> or its return.\<close>

definition call_connect :: "ConnectionRequest \<Rightarrow> World \<Rightarrow> World" where
  "call_connect request w =
     (let i = length (callers w) in
      if connected_via (fst request) (mc w) then set_caller i (request, Returned) w
      else
        (case connectionPromise (mc w) of
           Some pid \<Rightarrow> set_caller i (request, AwaitExisting pid) w
         | None \<Rightarrow> after_wait request i w))"

text \<open>
  The attempt \<open>pid\<close> runs from its first \<open>await\<close> to the end and settles its promise.
\<close>

definition finish_attempt :: "nat \<Rightarrow> ConnEnv \<Rightarrow> World \<Rightarrow> World" where
  "finish_attempt pid e w =
     (if pid < length (attempts w) then
        (case attempts w ! pid of
           Pending request \<Rightarrow>
             (case performConnection_finish request e (mc w) of
                (Inr u, c) \<Rightarrow> w\<lparr> mc := c, attempts := (attempts w)[pid := Resolved] \<rparr>
              | (Inl err, c) \<Rightarrow> w\<lparr> mc := c, attempts := (attempts w)[pid := Rejected err] \<rparr>)
         | _ \<Rightarrow> w)
      else w)"

text \<open>
  The caller \<open>i\<close> is resumed. A caller whose promise is still pending, or whose
  \<open>disconnect\<close> has not returned, stays suspended.
\<close>

definition resume :: "nat \<Rightarrow> World \<Rightarrow> World" where
  "resume i w =
     (if i < length (callers w) then
        (case callers w ! i of
           (request, AwaitExisting pid) \<Rightarrow>
             (if pid < length (attempts w) then
                (case attempts w ! pid of
                   Pending r \<Rightarrow> w
                 | Resolved \<Rightarrow>
                     if connected_via (fst request) (mc w)
                     then set_caller i (request, Returned) w
                     else after_wait request i w
                 | Rejected err \<Rightarrow>
                     after_wait request i (w\<lparr> mc := (mc w)\<lparr> connectionPromise := None \<rparr> \<rparr>))
              else w)
         | (request, AwaitDisconnect d) \<Rightarrow>
             (if d = DReturned then start_attempt request i w else w)
         | (request, AwaitOwn pid) \<Rightarrow>
             (if pid < length (attempts w) then
                (case attempts w ! pid of
                   Pending r \<Rightarrow> w
                 | Resolved \<Rightarrow>
                     set_caller i (request, Returned)
                       (w\<lparr> mc := (mc w)\<lparr> connectionPromise := None \<rparr> \<rparr>)
                 | Rejected err \<Rightarrow>
                     set_caller i (request, Threw err)
                       (w\<lparr> mc := (mc w)\<lparr> connectionPromise := None \<rparr> \<rparr>))
              else w)
         | (request, Returned) \<Rightarrow> w
         | (request, Threw err) \<Rightarrow> w)
      else w)"

datatype Action = Call ConnectionRequest | Finish nat ConnEnv | Advance nat | Resume nat

fun world_step :: "Action \<Rightarrow> World \<Rightarrow> World" where
  "world_step (Call request) w = call_connect request w"
| "world_step (Finish pid e) w = finish_attempt pid e w"
| "world_step (Advance i) w = advance_disconnect i w"
| "world_step (Resume i) w = resume i w"

definition run_world :: "Action list \<Rightarrow> World \<Rightarrow> World" where
  "run_world acts w = fold world_step acts w"

definition plugin_connect_calls :: "Effect list \<Rightarrow> nat" where
  "plugin_connect_calls l =
     length (filter (\<lambda>x. case x of CallPluginConnect n c \<Rightarrow> True | _ \<Rightarrow> False) l)"

definition plugin_disconnect_calls :: "Effect list \<Rightarrow> nat" where
  "plugin_disconnect_calls l =
     length (filter (\<lambda>x. case x of CallPluginDisconnect n \<Rightarrow> True | _ \<Rightarrow> False) l)"

definition in_flight :: "World \<Rightarrow> nat" where
  "in_flight w = length (filter (\<lambda>a. case a of Pending r \<Rightarrow> True | _ \<Rightarrow> False) (attempts w))"

subsection \<open>The wire shape, as the specification words it and as the code checks it\<close>

text \<open>
  The specification's reading of the wire shape: the message carries the version tag
  and is exactly one of a request (method and id), a notification (method, no id) and a
  response (id and exactly one of result and error).
\<close>

definition spec_request :: "jsval \<Rightarrow> bool" where
  "spec_request m = (has_prop ''method'' m \<and> has_prop ''id'' m)"

definition spec_notification :: "jsval \<Rightarrow> bool" where
  "spec_notification m = (has_prop ''method'' m \<and> \<not> has_prop ''id'' m)"

definition spec_response :: "jsval \<Rightarrow> bool" where
  "spec_response m = (has_prop ''id'' m \<and> (has_prop ''result'' m \<noteq> has_prop ''error'' m))"

definition spec_wire_shape :: "jsval \<Rightarrow> bool" where
  "spec_wire_shape m =
     (get_prop m ''jsonrpc'' = JStr ''2.0'' \<and>
      length (filter id [spec_request m, spec_notification m, spec_response m]) = 1)"

text \<open>
  The shape without the two "exactly one": the version tag, and a method, or an id
  together with a result or an error (or both).
\<close>

definition loose_wire_shape :: "jsval \<Rightarrow> bool" where
  "loose_wire_shape m =
     (get_prop m ''jsonrpc'' = JStr ''2.0'' \<and>
      (has_prop ''method'' m \<or>
       (has_prop ''id'' m \<and> (has_prop ''result'' m \<or> has_prop ''error'' m))))"

section \<open>Concrete inputs\<close>

text \<open>
  The inputs at which the properties below are instantiated: the Stdio server of the
  end-to-end scenario, a registry and a client that know the Stdio plugin, a child
  process that traps \<open>SIGTERM\<close>, a listening socket transport and some JSON-RPC
  messages.
\<close>

definition cfg_echo :: PluginConfig where
  "cfg_echo = [(''command'', JStr ''echo''), (''args'', JArr [JStr ''hi''])]"

definition cfg_trap :: PluginConfig where
  "cfg_trap =
     [(''command'', JStr ''sh''),
      (''args'', JArr [JStr ''-c'', JStr ''trap : TERM; while :; do sleep 1; done''])]"

definition cfg_no_command :: PluginConfig where
  "cfg_no_command = [(''args'', JArr [])]"

definition registry_with_stdio :: PluginRegistry where
  "registry_with_stdio = register StdioPlugin_face new_registry"

definition client_with_stdio :: McpClient where
  "client_with_stdio = registerPlugin StdioPlugin_face new_McpClient"

definition connects_fine :: ConnEnv where
  "connects_fine = \<lparr> plugin_connect = Some 0, handshake = HandshakeOk \<rparr>"

definition handshake_rejected :: ConnEnv where
  "handshake_rejected = \<lparr> plugin_connect = Some 0, handshake = HandshakeRejected \<rparr>"

definition handshake_times_out :: ConnEnv where
  "handshake_times_out = \<lparr> plugin_connect = Some 0, handshake = HandshakeTimedOut \<rparr>"

definition connected_client :: McpClient where
  "connected_client = snd (performConnection (stdio, cfg_echo) connects_fine client_with_stdio)"

definition trapping_child :: SpawnEnv where
  "trapping_child =
     \<lparr> process_env = [(''PATH'', JStr ''/usr/bin'')], spawn_throws = False,
       child_traps_sigterm = True \<rparr>"

definition connected_stdio :: StdioPlugin where
  "connected_stdio = snd (stdio_connect cfg_trap trapping_child new_StdioPlugin)"

definition listening :: WebSocketTransport where
  "listening =
     (new_WebSocketTransport (make_config ''ws://localhost:8080'' None (Some 3) (Some 1000)))
       \<lparr> ws := Some OPEN, isStarted := True, onmessage := Some (\<lambda>m. True),
         onclose := True, onerror := True \<rparr>"

definition a_request :: jsval where
  "a_request =
     JObj [(''jsonrpc'', JStr ''2.0''), (''method'', JStr ''tools/list''), (''id'', JNum 1)]"

definition a_notification :: jsval where
  "a_notification =
     JObj [(''jsonrpc'', JStr ''2.0''), (''method'', JStr ''notifications/initialized'')]"

definition untagged :: jsval where
  "untagged = JObj [(''method'', JStr ''tools/list''), (''id'', JNum 1)]"

definition both_result_and_error :: jsval where
  "both_result_and_error =
     JObj [(''jsonrpc'', JStr ''2.0''), (''id'', JNum 1), (''result'', JObj []),
           (''error'', JObj [(''code'', JNum (- 32600))])]"

definition one_tool :: "Primitive list" where
  "one_tool =
     [\<lparr> ptype = tool,
        pvalue = JObj [(''name'', JStr ''echo''), (''description'', JStr ''Echo the input'')] \<rparr>]"

definition first_discovery :: GpEnv where
  "first_discovery =
     \<lparr> now_check = 1000, now_stamp = 1000, now_store = 1001,
       discovery = Some one_tool, health_probe = Some True \<rparr>"

definition four_minutes_later :: GpEnv where
  "four_minutes_later =
     \<lparr> now_check = 241000, now_stamp = 241000, now_store = 241000,
       discovery = Some [], health_probe = Some True \<rparr>"

definition echo_request :: ConnectionRequest where
  "echo_request = (stdio, cfg_echo)"

definition idle_world :: World where
  "idle_world = new_World client_with_stdio"





section \<open>Properties of the registry\<close>

lemma keys_delete: "fst ` set (AList.delete k al) = fst ` set al - {k}"
proof -
  have "set (map fst (AList.delete k al)) = set (removeAll k (map fst al))"
    by (simp only: delete_keys)
  then show ?thesis by simp
qed

lemma map_of_Some_key: "map_of al k = Some v \<Longrightarrow> k \<in> fst ` set al"
  by (metis domI dom_map_of_conv_image_fst)

lemma reg_inv_register: "reg_inv r \<Longrightarrow> reg_inv (register p r)"
  by (simp add: reg_inv_def register_def Let_def dom_update)

lemma reg_inv_getInitializedPlugin: "reg_inv r \<Longrightarrow> reg_inv (snd (getInitializedPlugin t c r))"
  by (auto simp: reg_inv_def getInitializedPlugin_def Let_def dom_update
      split: option.splits dest: map_of_Some_key)

lemma reg_inv_unregister: "reg_inv r \<Longrightarrow> reg_inv (unregister t r)"
  by (simp add: reg_inv_def unregister_def keys_delete split: option.splits)

lemma reg_inv_fold_unregister: "reg_inv r \<Longrightarrow> reg_inv (fold unregister ts r)"
  by (induction ts arbitrary: r) (simp_all add: reg_inv_unregister)

lemma reg_inv_apply_op: "reg_inv r \<Longrightarrow> reg_inv (apply_op x r)"
  by (cases x)
    (simp_all add: reg_inv_register reg_inv_getInitializedPlugin reg_inv_unregister
      reg_inv_fold_unregister unregisterAll_def)

lemma reg_inv_run_ops: "reg_inv r \<Longrightarrow> reg_inv (run_ops ops r)"
  unfolding run_ops_def by (induction ops arbitrary: r) (simp_all add: reg_inv_apply_op)

lemma initialize_calls_append [simp]:
  "initialize_calls n (l @ l') = initialize_calls n l + initialize_calls n l'"
  by (simp add: initialize_calls_def)

lemma initialize_calls_single [simp]:
  "initialize_calls n [CallInitialize m c] = (if m = n then 1 else 0)"
  by (simp add: initialize_calls_def)

text \<open>
  Against claim C7 as stated. The Stdio plugin is registered and the configuration has
  no command, so \<open>initialize\<close> throws: \<open>getInitializedPlugin\<close> does not return
  the plugin, the flag stays unset, and a second call calls \<open>initialize\<close> again.
\<close>

theorem getInitializedPlugin_initialize_retried_counterexample:
  "fst (getInitializedPlugin stdio cfg_no_command registry_with_stdio) = Inl (InitializeFailed ''stdio'') \<and>
   initialize_calls ''stdio''
     (reg_log (snd (getInitializedPlugin stdio cfg_no_command
        (snd (getInitializedPlugin stdio cfg_no_command registry_with_stdio))))) = 2"
  by (simp add: getInitializedPlugin_def registry_with_stdio_def register_def new_registry_def
      StdioPlugin_face_def stdio_isSupported_def cfg_no_command_def Let_def initialize_calls_def)

text \<open>
  Claim C7, amended. \<open>getInitializedPlugin(t, c)\<close> fails with \<open>UnknownTransport\<close>
  and changes nothing when no plugin is registered for \<open>t\<close>. When a plugin is
  registered and is already initialized, or its \<open>initialize(c)\<close> returns normally, the
  call returns the registered plugin, having called \<open>initialize(c)\<close> once if the flag
  was not set and not at all if it was; after that, every further call for \<open>t\<close>, with
  any configuration, returns the plugin and calls nothing. When the flag is not set and
  \<open>initialize(c)\<close> throws, the call fails after that one \<open>initialize\<close> call and
  leaves the flag as it was.
\<close>

theorem getInitializedPlugin_lazy_once:
  "(map_of (plugins r) t = None \<longrightarrow> getInitializedPlugin t c r = (Inl (UnknownTransport t), r)) \<and>
   (\<forall>p. map_of (plugins r) t = Some p \<and> (map_of (initialized r) t = Some True \<or> initialize_ok p c) \<longrightarrow>
      fst (getInitializedPlugin t c r) = Inr p \<and>
      reg_log (snd (getInitializedPlugin t c r)) =
        reg_log r @ (if map_of (initialized r) t = Some True then [] else [CallInitialize (pname p) c]) \<and>
      (\<forall>c'. getInitializedPlugin t c' (snd (getInitializedPlugin t c r)) =
              (Inr p, snd (getInitializedPlugin t c r)))) \<and>
   (\<forall>p. map_of (plugins r) t = Some p \<and> map_of (initialized r) t \<noteq> Some True \<and> \<not> initialize_ok p c \<longrightarrow>
      getInitializedPlugin t c r =
        (Inl (InitializeFailed (pname p)), r\<lparr> reg_log := reg_log r @ [CallInitialize (pname p) c] \<rparr>))"
  by (auto simp: getInitializedPlugin_def Let_def update_conv')

text \<open>
  The three cases at the registry that holds the Stdio plugin: an unregistered type, a
  configuration the plugin accepts (one \<open>initialize\<close> call over two calls), and one
  it rejects.
\<close>

theorem getInitializedPlugin_lazy_once_witness:
  "getInitializedPlugin websocket cfg_echo registry_with_stdio
     = (Inl (UnknownTransport websocket), registry_with_stdio) \<and>
   fst (getInitializedPlugin stdio cfg_echo registry_with_stdio) = Inr StdioPlugin_face \<and>
   initialize_calls ''stdio'' (reg_log (snd (getInitializedPlugin stdio cfg_echo registry_with_stdio))) = 1 \<and>
   initialize_calls ''stdio''
     (reg_log (snd (getInitializedPlugin stdio cfg_no_command
        (snd (getInitializedPlugin stdio cfg_echo registry_with_stdio))))) = 1 \<and>
   fst (getInitializedPlugin stdio cfg_no_command registry_with_stdio) = Inl (InitializeFailed ''stdio'')"
proof -
  have reg: "map_of (plugins registry_with_stdio) stdio = Some StdioPlugin_face"
    "map_of (plugins registry_with_stdio) websocket = None"
    "map_of (initialized registry_with_stdio) stdio \<noteq> Some True"
    "reg_log registry_with_stdio = [Emit ''registry:plugin-registered'']"
    by (simp_all add: registry_with_stdio_def register_def new_registry_def StdioPlugin_face_def)
  have ok: "initialize_ok StdioPlugin_face cfg_echo" "\<not> initialize_ok StdioPlugin_face cfg_no_command"
    "pname StdioPlugin_face = ''stdio''"
    by (simp_all add: StdioPlugin_face_def stdio_isSupported_def cfg_echo_def cfg_no_command_def)
  note a = getInitializedPlugin_lazy_once[of registry_with_stdio websocket cfg_echo]
  note b = getInitializedPlugin_lazy_once[of registry_with_stdio stdio cfg_echo]
  note c = getInitializedPlugin_lazy_once[of registry_with_stdio stdio cfg_no_command]
  from a reg have 1: "getInitializedPlugin websocket cfg_echo registry_with_stdio
     = (Inl (UnknownTransport websocket), registry_with_stdio)" by simp
  from b reg ok have 2: "fst (getInitializedPlugin stdio cfg_echo registry_with_stdio) = Inr StdioPlugin_face"
    "reg_log (snd (getInitializedPlugin stdio cfg_echo registry_with_stdio)) =
       [Emit ''registry:plugin-registered'', CallInitialize ''stdio'' cfg_echo]"
    "getInitializedPlugin stdio cfg_no_command (snd (getInitializedPlugin stdio cfg_echo registry_with_stdio)) =
              (Inr StdioPlugin_face, snd (getInitializedPlugin stdio cfg_echo registry_with_stdio))"
    by simp_all
  from c reg ok have 3: "fst (getInitializedPlugin stdio cfg_no_command registry_with_stdio) = Inl (InitializeFailed ''stdio'')"
    by simp
  show ?thesis using 1 2 3 by (simp add: initialize_calls_def)
qed

text \<open>
  Claim C10. After any sequence of \<open>register\<close>, \<open>getInitializedPlugin\<close>,
  \<open>unregister\<close> and \<open>unregisterAll\<close>, each run to its end before the next starts,
  on a new registry, the types with an initialization flag are the types with a plugin.
  \<open>register\<close>, on any registry and so also for a type that is already registered,
  stores the new plugin under its type and sets the flag to false, so the next
  \<open>getInitializedPlugin\<close> for that type calls \<open>initialize\<close> of the new plugin.
\<close>

theorem registry_flags_follow_plugins:
  "fst ` set (initialized (run_ops ops new_registry)) = fst ` set (plugins (run_ops ops new_registry)) \<and>
   map_of (plugins (register p r)) (transportType p) = Some p \<and>
   map_of (initialized (register p r)) (transportType p) = Some False \<and>
   reg_log (snd (getInitializedPlugin (transportType p) c (register p r))) =
     reg_log (register p r) @ [CallInitialize (pname p) c] \<and>
   fst (getInitializedPlugin (transportType p) c (register p r)) =
     (if initialize_ok p c then Inr p else Inl (InitializeFailed (pname p)))"
proof -
  have "reg_inv new_registry" by (simp add: reg_inv_def new_registry_def)
  then have "reg_inv (run_ops ops new_registry)" by (rule reg_inv_run_ops)
  then have a: "fst ` set (initialized (run_ops ops new_registry)) = fst ` set (plugins (run_ops ops new_registry))"
    by (simp add: reg_inv_def)
  have b: "map_of (plugins (register p r)) (transportType p) = Some p"
    by (simp add: register_def Let_def update_conv')
  have c: "map_of (initialized (register p r)) (transportType p) = Some False"
    by (simp add: register_def Let_def update_conv')
  show ?thesis using a b c by (simp add: getInitializedPlugin_def Let_def)
qed

section \<open>Properties of StdioPlugin\<close>

text \<open>
  Claim C9. On a plugin whose \<open>_connected\<close> flag is set and whose \<open>_transport\<close> is
  not null, \<open>connect\<close> returns that transport and leaves the plugin as it was, for
  every configuration and whatever \<open>spawn\<close> would do: no child is added, and the
  stored transport and configuration stay.
\<close>

theorem stdio_connect_when_connected:
  "stdio_connected s \<Longrightarrow> stdio_transport s = Some t \<Longrightarrow> stdio_connect cfg e s = (Inr t, s)"
  by (simp add: stdio_connect_def)

lemma connected_stdio_fields:
  "stdio_connected connected_stdio" "stdio_transport connected_stdio = Some 0"
  "map_option running (stdio_process connected_stdio) = Some True"
  "released connected_stdio = []"
  by (simp_all add: connected_stdio_def stdio_connect_def new_StdioPlugin_def cfg_trap_def
      stdio_isSupported_def trapping_child_def Let_def)

text \<open>
  At the connected plugin, with a configuration that \<open>isSupported\<close> would reject.
\<close>

theorem stdio_connect_when_connected_witness:
  "stdio_connected connected_stdio \<and> stdio_transport connected_stdio = Some 0 \<and>
   stdio_connect cfg_no_command trapping_child connected_stdio = (Inr 0, connected_stdio) \<and>
   released (snd (stdio_connect cfg_no_command trapping_child connected_stdio)) = []"
  using stdio_connect_when_connected[of connected_stdio 0 cfg_no_command trapping_child]
  by (simp add: connected_stdio_fields)

text \<open>
  Claim C8, at a plugin connected to a child that traps \<open>SIGTERM\<close>. \<open>disconnect\<close>
  sends \<open>SIGTERM\<close>, which sets \<open>killed\<close>; after the grace period the test
  \<open>!this._process.killed\<close> fails, so no \<open>SIGKILL\<close> is sent and the child keeps
  running. The three references are null afterwards and \<open>isConnected\<close> is false.
\<close>

theorem stdio_disconnect_leaves_trapping_child_running:
  "stdio_isConnected connected_stdio \<and>
   map_option running (stdio_process connected_stdio) = Some True \<and>
   map received (released (stdio_disconnect connected_stdio)) = [[SIGTERM]] \<and>
   map running (released (stdio_disconnect connected_stdio)) = [True] \<and>
   stdio_transport (stdio_disconnect connected_stdio) = None \<and>
   stdio_process (stdio_disconnect connected_stdio) = None \<and>
   stdio_config (stdio_disconnect connected_stdio) = None \<and>
   stdio_isConnected (stdio_disconnect connected_stdio) = False"
  by (simp add: connected_stdio_def stdio_connect_def new_StdioPlugin_def cfg_trap_def
      stdio_isSupported_def trapping_child_def Let_def stdio_disconnect_def kill_def settle_def
      stdio_isConnected_def)

text \<open>
  The same for every child that is running when \<open>disconnect\<close> is called: the only
  signal it receives is the \<open>SIGTERM\<close>.
\<close>

lemma stdio_disconnect_never_sigkill:
  assumes "stdio_process s = Some p" "running p"
  shows "map received (released (stdio_disconnect s)) =
           map received (released s) @ [received p @ [SIGTERM]]"
  using assms
  by (auto simp: stdio_disconnect_def Let_def kill_def settle_def split: option.splits)

section \<open>Properties of WebSocketTransport\<close>

lemma timers_set_simps [simp]:
  "timers_set [] = []"
  "timers_set (x # l) = (case x of TimerSet d \<Rightarrow> [d] | _ \<Rightarrow> []) @ timers_set l"
  "timers_set (l @ l') = timers_set l @ timers_set l'"
  by (simp_all add: timers_set_def)

lemma close_notifications_simps [simp]:
  "close_notifications [] = 0"
  "close_notifications (x # l) = (if x = CloseNotified then 1 else 0) + close_notifications l"
  "close_notifications (l @ l') = close_notifications l + close_notifications l'"
  by (simp_all add: close_notifications_def)

lemma frames_sent_simps [simp]:
  "frames_sent [] = []"
  "frames_sent (x # l) = (case x of SocketSend m \<Rightarrow> [m] | _ \<Rightarrow> []) @ frames_sent l"
  "frames_sent (l @ l') = frames_sent l @ frames_sent l'"
  by (simp_all add: frames_sent_def)

lemma frames_sent_map_SocketSend [simp]: "frames_sent (map SocketSend q) = q"
  by (induction q) simp_all

lemma ws_run_append: "ws_run (evs @ evs') s = ws_run evs' (ws_run evs s)"
  by (simp add: ws_run_def)

lemma ws_run_Cons: "ws_run (ev # evs) s = ws_run evs (ws_step ev s)"
  by (simp add: ws_run_def)

subsection \<open>Inbound validation\<close>

lemma isValidJSONRPCMessage_loose: "isValidJSONRPCMessage m = loose_wire_shape m"
  by (cases m) (auto simp: isValidJSONRPCMessage_def loose_wire_shape_def Let_def)

text \<open>
  Against claim C2 as stated. A payload with an id, a result and an error is not a
  request, not a notification and, having both members, not a response in the
  specification's sense; the transport delivers it.
\<close>

theorem on_message_delivers_both_result_and_error_counterexample:
  "Delivered both_result_and_error \<in> set (out (on_message (Parsed both_result_and_error) listening)) \<and>
   \<not> spec_wire_shape both_result_and_error"
  by (simp add: on_message_def isValidJSONRPCMessage_def both_result_and_error_def listening_def
      new_WebSocketTransport_def emit_out_def spec_wire_shape_def spec_request_def
      spec_notification_def spec_response_def)

text \<open>
  Claim C2, amended. With an \<open>onmessage\<close> and an \<open>onerror\<close> callback set, an
  inbound payload is delivered to \<open>onmessage\<close> if and only if it parses to an object
  that carries \<open>jsonrpc === "2.0"\<close> and has a method, or an id together with a result
  or an error (or both); the three shapes are not exclusive. Every other payload is
  reported once through \<open>onerror\<close> and not delivered. In both cases the socket, the
  closed flag and the reconnect timer are as before and \<open>onclose\<close> is not called.
\<close>

theorem on_message_delivers_loose_shape:
  assumes "onmessage s = Some h" and "onerror s"
  shows "(Delivered m \<in> set (out (on_message p s))) =
           (Delivered m \<in> set (out s) \<or> (p = Parsed m \<and> loose_wire_shape m)) \<and>
         ((\<forall>m'. p = Parsed m' \<longrightarrow> \<not> loose_wire_shape m') \<longrightarrow>
            out (on_message p s) =
              out s @ [ErrorReported (if p = Unparsable then ParseFailed else InvalidReceived)]) \<and>
         ws (on_message p s) = ws s \<and> isClosed (on_message p s) = isClosed s \<and>
         reconnectTimer (on_message p s) = reconnectTimer s \<and>
         close_notifications (out (on_message p s)) = close_notifications (out s)"
  using assms
  by (cases p)
    (auto simp: on_message_def isValidJSONRPCMessage_loose handleError_def emit_out_def Let_def)

lemma listening_fields:
  "onmessage listening = Some (\<lambda>m. True)" "onerror listening" "out listening = []"
  "ws listening = Some OPEN" "onclose listening" "\<not> isClosed listening"
  "reconnectTimer listening = None" "reconnectCount listening = 0"
  "reconnectAttempts (config listening) = 3" "reconnectDelay (config listening) = 1000"
  "messageQueue listening = []"
  by (simp_all add: listening_def new_WebSocketTransport_def make_config_def)

lemma shapes:
  "loose_wire_shape a_request" "\<not> loose_wire_shape untagged" "loose_wire_shape a_notification"
  "a_request \<noteq> untagged"
  by (simp_all add: loose_wire_shape_def a_request_def untagged_def a_notification_def)

text \<open>
  A request is delivered; a payload without the version tag and a payload that does not
  parse are reported and dropped, and the socket stays open.
\<close>

theorem on_message_delivers_loose_shape_witness:
  "Delivered a_request \<in> set (out (on_message (Parsed a_request) listening)) \<and>
   out (on_message (Parsed untagged) listening) = [ErrorReported InvalidReceived] \<and>
   out (on_message Unparsable listening) = [ErrorReported ParseFailed] \<and>
   ws (on_message (Parsed untagged) listening) = Some OPEN"
proof -
  note a = on_message_delivers_loose_shape[of listening "\<lambda>m. True" a_request "Parsed a_request"]
  note b = on_message_delivers_loose_shape[of listening "\<lambda>m. True" a_request "Parsed untagged"]
  note c = on_message_delivers_loose_shape[of listening "\<lambda>m. True" a_request "Unparsable"]
  from a have 1: "Delivered a_request \<in> set (out (on_message (Parsed a_request) listening))"
    by (simp add: listening_fields shapes)
  from b have 2: "out (on_message (Parsed untagged) listening) = [ErrorReported InvalidReceived]"
    "ws (on_message (Parsed untagged) listening) = Some OPEN"
    by (simp_all add: listening_fields shapes)
  from c have 3: "out (on_message Unparsable listening) = [ErrorReported ParseFailed]"
    by (simp add: listening_fields)
  show ?thesis using 1 2 3 by simp
qed

subsection \<open>Reconnection\<close>

lemma scheduleReconnect_delay:
  assumes "reconnectTimer s = None"
  shows "scheduleReconnect s =
     s\<lparr> reconnectCount := Suc (reconnectCount s),
        reconnectTimer := Some (reconnectDelay (config s) * 2 ^ reconnectCount s),
        out := out s @ [TimerSet (reconnectDelay (config s) * 2 ^ reconnectCount s)] \<rparr>"
  using assms by (simp add: scheduleReconnect_def Let_def emit_out_def)

lemma on_close_schedules:
  assumes "\<not> isClosed s" "reconnectTimer s = None"
    "int (reconnectCount s) < reconnectAttempts (config s)"
  shows "on_close s =
     s\<lparr> ws := None, reconnectCount := Suc (reconnectCount s),
        reconnectTimer := Some (reconnectDelay (config s) * 2 ^ reconnectCount s),
        out := out s @ [TimerSet (reconnectDelay (config s) * 2 ^ reconnectCount s)] \<rparr>"
  using assms by (simp add: on_close_def scheduleReconnect_def Let_def emit_out_def)

lemma on_close_terminal:
  assumes "\<not> int (reconnectCount s) < reconnectAttempts (config s)" "onclose s"
  shows "on_close s = s\<lparr> ws := None, out := out s @ [CloseNotified] \<rparr>"
  using assms by (simp add: on_close_def Let_def emit_out_def)

text \<open>The timer fires and the new socket reports an error, or none: nothing is scheduled.\<close>

lemma attempt_opens_socket:
  assumes "reconnectTimer s = Some t"
  shows "\<exists>s'. ws_run (EvTimer True # (if e then [EvError] else [])) s = s' \<and>
     isClosed s' = isClosed s \<and> reconnectTimer s' = None \<and>
     reconnectCount s' = reconnectCount s \<and> config s' = config s \<and> onclose s' = onclose s \<and>
     timers_set (out s') = timers_set (out s) \<and>
     close_notifications (out s') = close_notifications (out s)"
  using assms
  by (simp add: ws_run_def on_timer_def ws_connect_def emit_out_def on_error_def handleError_def
      reject_pending_def)

lemma failed_attempt_reschedules:
  assumes "reconnectTimer s = Some t" "\<not> isClosed s"
    "int (reconnectCount s) < reconnectAttempts (config s)"
  shows "\<exists>s'. ws_run (failed_attempt e) s = s' \<and>
     isClosed s' = isClosed s \<and> reconnectCount s' = Suc (reconnectCount s) \<and>
     reconnectTimer s' = Some (reconnectDelay (config s) * 2 ^ reconnectCount s) \<and>
     config s' = config s \<and> onclose s' = onclose s \<and>
     timers_set (out s') = timers_set (out s) @ [reconnectDelay (config s) * 2 ^ reconnectCount s] \<and>
     close_notifications (out s') = close_notifications (out s)"
proof -
  obtain s1 where s1: "ws_run (EvTimer True # (if e then [EvError] else [])) s = s1"
     "isClosed s1 = isClosed s" "reconnectTimer s1 = None" "reconnectCount s1 = reconnectCount s"
     "config s1 = config s" "onclose s1 = onclose s"
     "timers_set (out s1) = timers_set (out s)"
     "close_notifications (out s1) = close_notifications (out s)"
    using attempt_opens_socket[OF assms(1)] by blast
  have "ws_run (failed_attempt e) s = on_close s1"
    using s1(1) by (simp add: failed_attempt_def ws_run_def)
  moreover have "on_close s1 =
     s1\<lparr> ws := None, reconnectCount := Suc (reconnectCount s1),
         reconnectTimer := Some (reconnectDelay (config s1) * 2 ^ reconnectCount s1),
         out := out s1 @ [TimerSet (reconnectDelay (config s1) * 2 ^ reconnectCount s1)] \<rparr>"
    using assms s1 by (intro on_close_schedules) simp_all
  ultimately show ?thesis using s1 by simp
qed

lemma failed_attempt_gives_up:
  assumes "reconnectTimer s = Some t" "onclose s"
    "\<not> int (reconnectCount s) < reconnectAttempts (config s)"
  shows "\<exists>s'. ws_run (failed_attempt e) s = s' \<and>
     reconnectTimer s' = None \<and> ws s' = None \<and> reconnectCount s' = reconnectCount s \<and>
     timers_set (out s') = timers_set (out s) \<and>
     close_notifications (out s') = close_notifications (out s) + 1"
proof -
  obtain s1 where s1: "ws_run (EvTimer True # (if e then [EvError] else [])) s = s1"
     "isClosed s1 = isClosed s" "reconnectTimer s1 = None" "reconnectCount s1 = reconnectCount s"
     "config s1 = config s" "onclose s1 = onclose s"
     "timers_set (out s1) = timers_set (out s)"
     "close_notifications (out s1) = close_notifications (out s)"
    using attempt_opens_socket[OF assms(1)] by blast
  have "ws_run (failed_attempt e) s = on_close s1"
    using s1(1) by (simp add: failed_attempt_def ws_run_def)
  moreover have "on_close s1 = s1\<lparr> ws := None, out := out s1 @ [CloseNotified] \<rparr>"
    using assms s1 by (intro on_close_terminal) simp_all
  ultimately show ?thesis using s1 by simp
qed

text \<open>
  Claim C3. A transport with \<open>reconnectAttempts = 3\<close> and \<open>reconnectDelay = d\<close>
  that is not closed on purpose, has no timer pending and has its counter at zero loses
  its socket, and each of the three reconnection attempts ends in a close as well
  (after an error event or without one). The timers set are \<open>d\<close>, \<open>2d\<close> and
  \<open>4d\<close>, in this order; \<open>onclose\<close> is called exactly once; no timer is pending and
  no socket is held at the end. In general \<open>scheduleReconnect\<close>, with \<open>k\<close> attempts
  counted so far, sets the timer of attempt \<open>k + 1\<close> to \<open>reconnectDelay * 2 ^ k\<close>.
\<close>

theorem reconnect_backoff_three_attempts:
  assumes "\<not> isClosed s" and "reconnectTimer s = None" and "reconnectCount s = 0"
    and "reconnectAttempts (config s) = 3" and "reconnectDelay (config s) = d" and "onclose s"
  shows "timers_set (out (ws_run (EvClose # failed_attempt e1 @ failed_attempt e2 @ failed_attempt e3) s))
           = timers_set (out s) @ [d, 2 * d, 4 * d] \<and>
         close_notifications (out (ws_run (EvClose # failed_attempt e1 @ failed_attempt e2 @ failed_attempt e3) s))
           = close_notifications (out s) + 1 \<and>
         reconnectTimer (ws_run (EvClose # failed_attempt e1 @ failed_attempt e2 @ failed_attempt e3) s) = None \<and>
         ws (ws_run (EvClose # failed_attempt e1 @ failed_attempt e2 @ failed_attempt e3) s) = None \<and>
         (\<forall>k s0. reconnectTimer s0 = None \<and> reconnectCount s0 = k \<longrightarrow>
            out (scheduleReconnect s0) = out s0 @ [TimerSet (reconnectDelay (config s0) * 2 ^ k)] \<and>
            reconnectCount (scheduleReconnect s0) = Suc k)"
proof -
  let ?s0 = "on_close s"
  have s0: "?s0 = s\<lparr> ws := None, reconnectCount := Suc 0, reconnectTimer := Some d,
              out := out s @ [TimerSet d] \<rparr>"
    using assms on_close_schedules[of s] by simp
  obtain s1 where s1: "ws_run (failed_attempt e1) ?s0 = s1" "isClosed s1 = isClosed ?s0"
      "reconnectCount s1 = Suc (reconnectCount ?s0)"
      "reconnectTimer s1 = Some (reconnectDelay (config ?s0) * 2 ^ reconnectCount ?s0)"
      "config s1 = config ?s0" "onclose s1 = onclose ?s0"
      "timers_set (out s1) = timers_set (out ?s0) @ [reconnectDelay (config ?s0) * 2 ^ reconnectCount ?s0]"
      "close_notifications (out s1) = close_notifications (out ?s0)"
    using failed_attempt_reschedules[of ?s0 d e1] assms by (auto simp: s0)
  obtain s2 where s2: "ws_run (failed_attempt e2) s1 = s2" "isClosed s2 = isClosed s1"
      "reconnectCount s2 = Suc (reconnectCount s1)"
      "reconnectTimer s2 = Some (reconnectDelay (config s1) * 2 ^ reconnectCount s1)"
      "config s2 = config s1" "onclose s2 = onclose s1"
      "timers_set (out s2) = timers_set (out s1) @ [reconnectDelay (config s1) * 2 ^ reconnectCount s1]"
      "close_notifications (out s2) = close_notifications (out s1)"
    using failed_attempt_reschedules[of s1 _ e2] assms s1 by (auto simp: s0)
  obtain s3 where s3: "ws_run (failed_attempt e3) s2 = s3"
      "reconnectTimer s3 = None" "ws s3 = None"
      "timers_set (out s3) = timers_set (out s2)"
      "close_notifications (out s3) = close_notifications (out s2) + 1"
    using failed_attempt_gives_up[of s2 _ e3] assms s1 s2 by (auto simp: s0)
  have run: "ws_run (EvClose # failed_attempt e1 @ failed_attempt e2 @ failed_attempt e3) s = s3"
    using s1(1) s2(1) s3(1) by (simp add: ws_run_Cons ws_run_append)
  have t: "timers_set (out s3) = timers_set (out s) @ [d, 2 * d, 4 * d]"
    using s3(4) s2(7) s1(7) s1(3,5) assms(5) by (simp add: s0)
  have c: "close_notifications (out s3) = close_notifications (out s) + 1"
    using s3(5) s2(8) s1(8) by (simp add: s0)
  have k: "\<forall>k s0. reconnectTimer s0 = None \<and> reconnectCount s0 = k \<longrightarrow>
            out (scheduleReconnect s0) = out s0 @ [TimerSet (reconnectDelay (config s0) * 2 ^ k)] \<and>
            reconnectCount (scheduleReconnect s0) = Suc k"
    by (simp add: scheduleReconnect_delay)
  show ?thesis using run t c s3(2,3) k by simp
qed

text \<open>
  At the listening transport, whose delay is 1000 ms.
\<close>

theorem reconnect_backoff_three_attempts_witness:
  "timers_set (out (ws_run (EvClose # failed_attempt True @ failed_attempt True @ failed_attempt False)
      listening)) = [1000, 2000, 4000] \<and>
   close_notifications (out (ws_run (EvClose # failed_attempt True @ failed_attempt True @ failed_attempt False)
      listening)) = 1 \<and>
   reconnectTimer (ws_run (EvClose # failed_attempt True @ failed_attempt True @ failed_attempt False)
      listening) = None"
  using reconnect_backoff_three_attempts[of listening 1000 True True False]
  by (simp add: listening_fields)

subsection \<open>The outbound queue\<close>

lemma valid_truthy: "isValidJSONRPCMessage m \<Longrightarrow> truthy m"
  by (auto simp: isValidJSONRPCMessage_def split: if_splits)

lemma flush_one_valid:
  "ws s = Some OPEN \<Longrightarrow> isValidJSONRPCMessage m \<Longrightarrow>
   flush_one m s = s\<lparr> out := out s @ [SocketSend m] \<rparr>"
  by (simp add: flush_one_def send_def emit_out_def valid_truthy)

lemma flushMessageQueue_valid:
  "ws s = Some OPEN \<Longrightarrow> list_all isValidJSONRPCMessage (messageQueue s) \<Longrightarrow>
   flushMessageQueue s = s\<lparr> messageQueue := [], out := out s @ map SocketSend (messageQueue s) \<rparr>"
proof (induction "messageQueue s" arbitrary: s)
  case Nil
  then show ?case by (simp add: flushMessageQueue.simps)
next
  case (Cons m q)
  let ?s1 = "s\<lparr> messageQueue := q, out := out s @ [SocketSend m] \<rparr>"
  have eq: "messageQueue s = m # q" using Cons.hyps(2) by simp
  have v: "isValidJSONRPCMessage m" "list_all isValidJSONRPCMessage q"
    using Cons.prems(2) eq by simp_all
  have step: "flushMessageQueue s = flushMessageQueue ?s1"
    using Cons.prems(1) eq v(1)
    by (subst flushMessageQueue.simps) (simp add: flush_one_valid)
  have "flushMessageQueue ?s1 =
          ?s1\<lparr> messageQueue := [], out := out ?s1 @ map SocketSend (messageQueue ?s1) \<rparr>"
    by (rule Cons.hyps(1)) (use Cons.prems(1) v(2) in simp_all)
  with step eq show ?case by simp
qed

lemma send_all_queues:
  "ws s \<noteq> Some OPEN \<Longrightarrow> list_all isValidJSONRPCMessage msgs \<Longrightarrow>
   send_all msgs s = (replicate (length msgs) (Inr ()), s\<lparr> messageQueue := messageQueue s @ msgs \<rparr>)"
proof (induction msgs arbitrary: s)
  case Nil
  then show ?case by simp
next
  case (Cons m ms)
  let ?s1 = "s\<lparr> messageQueue := messageQueue s @ [m] \<rparr>"
  have "send m s = (Inr (), ?s1)"
    using Cons.prems by (simp add: send_def)
  moreover have "send_all ms ?s1 =
     (replicate (length ms) (Inr ()), ?s1\<lparr> messageQueue := messageQueue ?s1 @ ms \<rparr>)"
    using Cons.prems by (intro Cons.IH) simp_all
  ultimately show ?case by simp
qed

lemma fold_handleError_keeps:
  "messageQueue (fold handleError es s) = messageQueue s \<and>
   frames_sent (out (fold handleError es s)) = frames_sent (out s)"
  by (induction es arbitrary: s) (simp_all add: handleError_def emit_out_def)

lemma run_deferred_keeps:
  "messageQueue (run_deferred s) = messageQueue s \<and>
   frames_sent (out (run_deferred s)) = frames_sent (out s)"
  using fold_handleError_keeps[of "deferred s" "s\<lparr> deferred := [] \<rparr>"]
  by (simp add: run_deferred_def)

lemma on_open_flushes:
  assumes "list_all isValidJSONRPCMessage (messageQueue s)" "ws s \<noteq> None"
  shows "messageQueue (on_open s) = [] \<and>
         frames_sent (out (on_open s)) = frames_sent (out s) @ messageQueue s"
proof -
  let ?s0 = "s\<lparr> ws := map_option (\<lambda>r. OPEN) (ws s), reconnectCount := 0 \<rparr>"
  let ?s1 = "resolve_pending (flushMessageQueue ?s0)"
  have "flushMessageQueue ?s0 =
          ?s0\<lparr> messageQueue := [], out := out ?s0 @ map SocketSend (messageQueue ?s0) \<rparr>"
    by (rule flushMessageQueue_valid) (use assms in auto)
  then have "messageQueue ?s1 = [] \<and> frames_sent (out ?s1) = frames_sent (out s) @ messageQueue s"
    by (simp add: resolve_pending_def emit_out_def split: option.splits Caller.splits)
  then show ?thesis
    using run_deferred_keeps[of ?s1] by (simp add: on_open_def)
qed

lemma close_clears_queue: "messageQueue (close s) = []"
  by (simp add: close_def Let_def emit_out_def)

text \<open>Events other than \<open>open\<close> neither touch the queue nor send a frame.\<close>

lemma ws_step_keeps_queue:
  "ev \<noteq> EvOpen \<Longrightarrow>
   messageQueue (ws_step ev s) = messageQueue s \<and>
   frames_sent (out (ws_step ev s)) = frames_sent (out s)"
proof (cases ev)
  case (EvMessage p)
  then show ?thesis
    by (cases p)
      (auto simp: on_message_def handleError_def emit_out_def Let_def split: option.splits)
next
  case EvClose
  then show ?thesis
    by (simp add: on_close_def scheduleReconnect_def emit_out_def Let_def)
next
  case EvError
  then show ?thesis
    by (simp add: on_error_def handleError_def reject_pending_def emit_out_def
        split: option.splits Caller.splits)
next
  case (EvTimer ok)
  then show ?thesis
    by (simp add: on_timer_def ws_connect_def handleError_def reject_pending_def emit_out_def)
qed simp

lemma ws_run_keeps_queue:
  "EvOpen \<notin> set evs \<Longrightarrow>
   messageQueue (ws_run evs s) = messageQueue s \<and>
   frames_sent (out (ws_run evs s)) = frames_sent (out s)"
proof (induction evs arbitrary: s)
  case Nil
  then show ?case by (simp add: ws_run_def)
next
  case (Cons ev evs)
  then have "ev \<noteq> EvOpen" "EvOpen \<notin> set evs" by auto
  with Cons.IH[of "ws_step ev s"] ws_step_keeps_queue[of ev s]
  show ?case by (simp add: ws_run_Cons)
qed

text \<open>
  Claim C4. While the socket is not open, \<open>send\<close> of valid messages never fails and
  appends each message to the queue, in call order, sending nothing. Whatever events
  other than \<open>open\<close> follow, the next \<open>open\<close> hands the queued messages to the
  socket in queue order and leaves the queue empty. \<open>close\<close> empties the queue.
\<close>

theorem queued_sends_flush_in_order:
  assumes "ws s \<noteq> Some OPEN"
    and "list_all isValidJSONRPCMessage (messageQueue s)"
    and "list_all isValidJSONRPCMessage msgs"
    and "EvOpen \<notin> set evs"
    and "ws (ws_run evs (snd (send_all msgs s))) \<noteq> None"
  shows "fst (send_all msgs s) = replicate (length msgs) (Inr ()) \<and>
         messageQueue (snd (send_all msgs s)) = messageQueue s @ msgs \<and>
         out (snd (send_all msgs s)) = out s \<and>
         frames_sent (out (ws_run (evs @ [EvOpen]) (snd (send_all msgs s)))) =
           frames_sent (out s) @ messageQueue s @ msgs \<and>
         messageQueue (ws_run (evs @ [EvOpen]) (snd (send_all msgs s))) = [] \<and>
         messageQueue (close (snd (send_all msgs s))) = []"
proof -
  let ?s1 = "s\<lparr> messageQueue := messageQueue s @ msgs \<rparr>"
  let ?s2 = "ws_run evs ?s1"
  have sa: "send_all msgs s = (replicate (length msgs) (Inr ()), ?s1)"
    using assms(1,3) by (rule send_all_queues)
  have q2: "messageQueue ?s2 = messageQueue s @ msgs" "frames_sent (out ?s2) = frames_sent (out s)"
    using ws_run_keeps_queue[OF assms(4), of ?s1] by simp_all
  have "list_all isValidJSONRPCMessage (messageQueue ?s2)" using assms(2,3) q2 by simp
  moreover have "ws ?s2 \<noteq> None" using assms(5) sa by simp
  ultimately have "messageQueue (on_open ?s2) = [] \<and>
         frames_sent (out (on_open ?s2)) = frames_sent (out ?s2) @ messageQueue ?s2"
    by (rule on_open_flushes)
  with q2
  have "messageQueue (on_open ?s2) = []"
    "frames_sent (out (on_open ?s2)) = frames_sent (out s) @ messageQueue s @ msgs"
    by simp_all
  then show ?thesis using sa by (simp add: ws_run_append ws_run_Cons ws_run_def close_clears_queue)
qed

lemma messages_valid:
  "isValidJSONRPCMessage a_request" "isValidJSONRPCMessage a_notification"
  by (simp_all add: isValidJSONRPCMessage_loose shapes)

text \<open>
  Two messages sent after the socket of the listening transport has closed, then the
  reconnection timer and the \<open>open\<close> of the new socket.
\<close>

theorem queued_sends_flush_in_order_witness:
  "fst (send_all [a_request, a_notification] (on_close listening)) = [Inr (), Inr ()] \<and>
   messageQueue (snd (send_all [a_request, a_notification] (on_close listening))) =
     [a_request, a_notification] \<and>
   frames_sent (out (ws_run ([EvTimer True] @ [EvOpen])
      (snd (send_all [a_request, a_notification] (on_close listening))))) = [a_request, a_notification] \<and>
   messageQueue (ws_run ([EvTimer True] @ [EvOpen])
      (snd (send_all [a_request, a_notification] (on_close listening)))) = [] \<and>
   messageQueue (close (snd (send_all [a_request, a_notification] (on_close listening)))) = []"
proof -
  have s: "ws (on_close listening) \<noteq> Some OPEN" "messageQueue (on_close listening) = []"
    "frames_sent (out (on_close listening)) = []" "reconnectTimer (on_close listening) = Some 1000"
    by (simp_all add: on_close_def listening_fields scheduleReconnect_def emit_out_def Let_def)
  have "send_all [a_request, a_notification] (on_close listening) =
          (replicate (length [a_request, a_notification]) (Inr ()),
           (on_close listening)\<lparr> messageQueue :=
              messageQueue (on_close listening) @ [a_request, a_notification] \<rparr>)"
    by (rule send_all_queues) (simp_all add: s messages_valid)
  then have socket: "ws (ws_run [EvTimer True]
      (snd (send_all [a_request, a_notification] (on_close listening)))) \<noteq> None"
    by (simp add: ws_run_def on_timer_def ws_connect_def emit_out_def s)
  show ?thesis
    using queued_sends_flush_in_order[of "on_close listening" "[a_request, a_notification]"
        "[EvTimer True]"] socket
    by (simp add: s messages_valid)
qed

section \<open>Properties of McpClient\<close>

lemma plugin_connect_calls_simps [simp]:
  "plugin_connect_calls [] = 0"
  "plugin_connect_calls (x # l) =
     (case x of CallPluginConnect n c \<Rightarrow> 1 | _ \<Rightarrow> 0) + plugin_connect_calls l"
  "plugin_connect_calls (l @ l') = plugin_connect_calls l + plugin_connect_calls l'"
  by (simp_all add: plugin_connect_calls_def split: Effect.splits)

subsection \<open>A failing attempt\<close>

text \<open>
  Claim C5, at a client that knows the Stdio plugin: \<open>plugin.connect\<close> returns a
  transport and the handshake times out. The attempt fails with the timeout, the client
  is closed and nulled, the timer, the transport, the flag and the cache are reset;
  but \<open>activePlugin\<close> is assigned only after the handshake, so \<open>cleanup\<close> finds
  no active plugin and \<open>plugin.disconnect\<close> is never called.
\<close>

theorem failed_handshake_leaves_plugin_connected:
  "fst (performConnection (stdio, cfg_echo) handshake_times_out client_with_stdio)
     = Inl (ConnectTimeout 30000) \<and>
   plugin_connect_calls
     (effects (snd (performConnection (stdio, cfg_echo) handshake_times_out client_with_stdio))) = 1 \<and>
   plugin_disconnect_calls
     (effects (snd (performConnection (stdio, cfg_echo) handshake_times_out client_with_stdio))) = 0 \<and>
   healthCheckTimer (snd (performConnection (stdio, cfg_echo) handshake_times_out client_with_stdio)) = None \<and>
   client (snd (performConnection (stdio, cfg_echo) handshake_times_out client_with_stdio)) = None \<and>
   activeTransport (snd (performConnection (stdio, cfg_echo) handshake_times_out client_with_stdio)) = None \<and>
   isConnectedFlag (snd (performConnection (stdio, cfg_echo) handshake_times_out client_with_stdio)) = False \<and>
   primitivesCache (snd (performConnection (stdio, cfg_echo) handshake_times_out client_with_stdio)) = None"
  by code_simp

text \<open>
  In general: every failing attempt leaves the client's own fields in the disconnected
  state; and an attempt that starts without an active plugin and fails, at whatever step,
  calls no \<open>plugin.disconnect\<close>.
\<close>

lemma plugin_disconnect_calls_simps [simp]:
  "plugin_disconnect_calls [] = 0"
  "plugin_disconnect_calls (x # l) =
     (case x of CallPluginDisconnect n \<Rightarrow> 1 | _ \<Rightarrow> 0) + plugin_disconnect_calls l"
  "plugin_disconnect_calls (l @ l') = plugin_disconnect_calls l + plugin_disconnect_calls l'"
  by (simp_all add: plugin_disconnect_calls_def split: Effect.splits)

lemma cleanup_resets:
  "healthCheckTimer (cleanup s) = None \<and> client (cleanup s) = None \<and>
   activePlugin (cleanup s) = None \<and> activeTransport (cleanup s) = None \<and>
   \<not> isConnectedFlag (cleanup s) \<and> primitivesCache (cleanup s) = None \<and>
   primitivesCacheTime (cleanup s) = 0"
  by (simp add: cleanup_def Let_def stopHealthMonitoring_def add_effect_def clearPrimitivesCache_def
      split: option.splits)

lemma failed_attempt_resets_client:
  assumes "performConnection request e s = (Inl err, s')"
  shows "healthCheckTimer s' = None \<and> client s' = None \<and> activePlugin s' = None \<and>
         activeTransport s' = None \<and> \<not> isConnectedFlag s' \<and> primitivesCache s' = None \<and>
         primitivesCacheTime s' = 0"
proof -
  let ?s0 = "performConnection_begin request s"
  obtain r s1 where b: "connection_body request e ?s0 = (r, s1)"
    by (cases "connection_body request e ?s0")
  with assms have "s' = add_effect (Emit ''connection:status-changed'')
             (add_effect (Emit ''client:error'') (cleanup s1))"
    by (cases r) (auto simp: performConnection_def performConnection_finish_def)
  then show ?thesis using cleanup_resets[of s1] by (simp add: add_effect_def)
qed

lemma connection_body_failure_keeps_activePlugin:
  assumes "connection_body request e s = (Inl err, s1)"
  shows "activePlugin s1 = activePlugin s \<and>
         plugin_disconnect_calls (effects s1) = plugin_disconnect_calls (effects s)"
  using assms
  by (auto simp: connection_body_def Let_def add_effect_def
      split: prod.splits sum.splits if_splits option.splits Handshake.splits)

lemma failed_attempt_never_disconnects:
  assumes "activePlugin s = None" "fst (performConnection request e s) = Inl err"
  shows "plugin_disconnect_calls (effects (snd (performConnection request e s))) =
         plugin_disconnect_calls (effects s)"
proof -
  let ?s0 = "performConnection_begin request s"
  obtain r s1 where b: "connection_body request e ?s0 = (r, s1)"
    by (cases "connection_body request e ?s0")
  with assms(2) obtain err' where r: "r = Inl err'"
    by (cases r) (auto simp: performConnection_def performConnection_finish_def)
  from connection_body_failure_keeps_activePlugin[of request e ?s0 err' s1] b r assms(1)
  have k: "activePlugin s1 = None"
    "plugin_disconnect_calls (effects s1) = plugin_disconnect_calls (effects s)"
    by (simp_all add: performConnection_begin_def add_effect_def)
  have "plugin_disconnect_calls (effects (cleanup s1)) = plugin_disconnect_calls (effects s1)"
    using k(1)
    by (simp add: cleanup_def Let_def stopHealthMonitoring_def add_effect_def clearPrimitivesCache_def
        split: option.splits)
  then show ?thesis
    using b r k(2) by (simp add: performConnection_def performConnection_finish_def add_effect_def)
qed

subsection \<open>The primitives cache\<close>

lemma getPrimitives_result_cached:
  assumes "getPrimitives f e1 s = (Inr r1, s1)"
  shows "primitivesCache s1 = Some r1 \<and> isConnectedFlag s1 \<and> activePlugin s1 \<noteq> None \<and> client s1 \<noteq> None"
  using assms
  by (auto simp: getPrimitives_def Let_def add_effect_def split: option.splits if_splits)

lemma getPrimitives_from_cache:
  assumes "primitivesCache s = Some r" "isConnectedFlag s" "activePlugin s \<noteq> None" "client s \<noteq> None"
    "now_check e - primitivesCacheTime s < 300000"
  shows "getPrimitives False e s = (Inr r, s)"
  using assms by (auto simp: getPrimitives_def isCacheValid_def CACHE_TTL_def split: option.splits)

lemma getPrimitives_fresh:
  assumes "getPrimitives f e s = (Inr r, s1)" "f \<or> primitivesCache s = None"
  shows "timestamp r = now_stamp e \<and> primitivesCacheTime s1 = now_store e"
  using assms
  by (auto simp: getPrimitives_def Let_def add_effect_def split: option.splits if_splits)

lemma getPrimitives_force_discovers:
  assumes "isConnectedFlag s" "activePlugin s = Some p" "client s = Some c"
  shows "\<exists>rest. effects (snd (getPrimitives True e s)) = effects s @ CallGetPrimitives (pname p) # rest"
  using assms
  by (auto simp: getPrimitives_def Let_def add_effect_def discovery_failed_def isHealthy_def
      split: option.splits if_splits bool.splits)

lemma getPrimitives_force_returns:
  assumes "isConnectedFlag s" "activePlugin s = Some p" "client s = Some c"
    "discovery e = Some prims" "\<not> list_ex (\<lambda>p. nullish (pvalue p)) prims"
  shows "\<exists>r. fst (getPrimitives True e s) = Inr r \<and> timestamp r = now_stamp e \<and>
      primitivesCache (snd (getPrimitives True e s)) = Some r"
  using assms
  by (simp add: getPrimitives_def Let_def add_effect_def)

text \<open>
  Claim C6. On a connected client: when a call of \<open>getPrimitives\<close> has returned a
  snapshot, a call without \<open>forceRefresh\<close> whose clock reading is less than 300000 ms
  after the stored cache time returns that same snapshot and changes nothing (no
  discovery, no event); a call that performed discovery stamps its snapshot and the cache
  with its own clock readings. \<open>getPrimitives(true)\<close> always calls the plugin's
  discovery, whatever the cache holds, and when discovery returns it returns a snapshot
  with the timestamp of this call and stores it.
\<close>

theorem getPrimitives_cache_and_refresh:
  assumes "isConnectedFlag s" and "activePlugin s = Some p" and "client s = Some c"
  shows "(\<forall>f e1 r1 s1 e2. getPrimitives f e1 s = (Inr r1, s1) \<and>
            now_check e2 - primitivesCacheTime s1 < 300000 \<longrightarrow>
            getPrimitives False e2 s1 = (Inr r1, s1)) \<and>
         (\<forall>f e1 r1 s1. getPrimitives f e1 s = (Inr r1, s1) \<and> (f \<or> primitivesCache s = None) \<longrightarrow>
            timestamp r1 = now_stamp e1 \<and> primitivesCacheTime s1 = now_store e1) \<and>
         (\<forall>e. \<exists>rest. effects (snd (getPrimitives True e s)) =
                  effects s @ CallGetPrimitives (pname p) # rest) \<and>
         (\<forall>e prims. discovery e = Some prims \<and> \<not> list_ex (\<lambda>p. nullish (pvalue p)) prims \<longrightarrow>
            (\<exists>r. fst (getPrimitives True e s) = Inr r \<and> timestamp r = now_stamp e \<and>
               primitivesCache (snd (getPrimitives True e s)) = Some r))"
proof (intro conjI allI impI)
  fix f e1 r1 s1 and e2 :: GpEnv
  assume a: "getPrimitives f e1 s = (Inr r1, s1) \<and> now_check e2 - primitivesCacheTime s1 < 300000"
  from getPrimitives_result_cached[of f e1 s r1 s1] a
  show "getPrimitives False e2 s1 = (Inr r1, s1)"
    by (intro getPrimitives_from_cache) auto
next
  fix f e1 r1 s1
  assume a: "getPrimitives f e1 s = (Inr r1, s1) \<and> (f \<or> primitivesCache s = None)"
  then show "timestamp r1 = now_stamp e1" "primitivesCacheTime s1 = now_store e1"
    using getPrimitives_fresh[of f e1 s r1 s1] by blast+
next
  fix e :: GpEnv
  show "\<exists>rest. effects (snd (getPrimitives True e s)) = effects s @ CallGetPrimitives (pname p) # rest"
    using assms by (rule getPrimitives_force_discovers)
next
  fix e :: GpEnv and prims
  assume "discovery e = Some prims \<and> \<not> list_ex (\<lambda>p. nullish (pvalue p)) prims"
  then show "\<exists>r. fst (getPrimitives True e s) = Inr r \<and> timestamp r = now_stamp e \<and>
               primitivesCache (snd (getPrimitives True e s)) = Some r"
    using assms getPrimitives_force_returns[of s p c e prims] by blast
qed

lemma connected_client_fields:
  "isConnectedFlag connected_client" "activePlugin connected_client = Some StdioPlugin_face"
  "client connected_client = Some 0" "primitivesCache connected_client = None"
  by (simp_all add: connected_client_def performConnection_def performConnection_begin_def
      performConnection_finish_def connection_body_def client_with_stdio_def registerPlugin_def
      new_McpClient_def register_def new_registry_def getInitializedPlugin_def add_effect_def
      StdioPlugin_face_def stdio_isSupported_def cfg_echo_def default_plugin_config_def
      connects_fine_def startHealthMonitoring_def clearPrimitivesCache_def Let_def)

text \<open>
  At the client connected over Stdio: a first discovery at time 1000, a second call four
  minutes later, and a forced call.
\<close>

theorem getPrimitives_cache_and_refresh_witness:
  "map_sum id timestamp (fst (getPrimitives False first_discovery connected_client)) = Inr 1000 \<and>
   getPrimitives False four_minutes_later (snd (getPrimitives False first_discovery connected_client))
     = getPrimitives False first_discovery connected_client \<and>
   map_sum id timestamp (fst (getPrimitives True four_minutes_later connected_client)) = Inr 241000"
proof -
  note inst = getPrimitives_cache_and_refresh[OF connected_client_fields(1,2,3)]
  obtain r1 s1 where first: "getPrimitives False first_discovery connected_client = (Inr r1, s1)"
    by (simp add: getPrimitives_def connected_client_fields first_discovery_def one_tool_def
        nullish_def Let_def)
  from inst first have fresh: "timestamp r1 = 1000" "primitivesCacheTime s1 = 1001"
    using connected_client_fields(4) by (auto simp: first_discovery_def)
  have "now_check four_minutes_later - primitivesCacheTime s1 < 300000"
    by (simp add: fresh four_minutes_later_def)
  with inst first have second: "getPrimitives False four_minutes_later s1 = (Inr r1, s1)"
    by blast
  have "discovery four_minutes_later = Some [] \<and> \<not> list_ex (\<lambda>p. nullish (pvalue p)) []"
    by (simp add: four_minutes_later_def)
  with inst obtain r where forced: "fst (getPrimitives True four_minutes_later connected_client) = Inr r"
    "timestamp r = now_stamp four_minutes_later"
    by blast
  show ?thesis using first fresh second forced by (simp add: four_minutes_later_def)
qed

subsection \<open>Concurrent calls of connect\<close>

text \<open>
  The stretches of \<open>disconnect\<close>, run one after the other with no other call in
  between, make up \<open>disconnect\<close> as it is defined in one piece.
\<close>

lemma disconnect_in_steps:
  "(case disconnect_begin s of (d0, s0) \<Rightarrow>
      case disconnect_step d0 s0 of (d1, s1) \<Rightarrow>
        case disconnect_step d1 s1 of (d2, s2) \<Rightarrow> disconnect_step d2 s2)
   = (DReturned, disconnect s)"
proof (cases "isConnectedFlag s")
  case False
  then show ?thesis by (simp add: disconnect_begin_def disconnect_step_def disconnect_def)
next
  case True
  note defs = disconnect_begin_def disconnect_step_def cleanup_from_plugin_def cleanup_end_def
      disconnect_def cleanup_def Let_def stopHealthMonitoring_def add_effect_def
      clearPrimitivesCache_def
  show ?thesis
  proof (cases "client s")
    case None
    note c = this
    show ?thesis
    proof (cases "activePlugin s")
      case None
      with True c show ?thesis by (simp add: defs)
    next
      case (Some p)
      with True c show ?thesis by (simp add: defs)
    qed
  next
    case (Some k)
    note c = this
    show ?thesis
    proof (cases "activePlugin s")
      case None
      with True c show ?thesis by (simp add: defs)
    next
      case (Some p)
      with True c show ?thesis by (simp add: defs)
    qed
  qed
qed





























text \<open>
  Outside the amended claim, the guard slips in two ways. With three callers, after a
  failed attempt each of the two waiting callers clears the promise and starts an attempt
  of its own, and two attempts are pending at once.
\<close>

lemma three_callers_two_attempts_in_flight:
  "in_flight (run_world [Call echo_request, Call echo_request, Call echo_request,
      Finish 0 handshake_rejected, Resume 0, Resume 1, Resume 2] idle_world) = 2"
  by code_simp

text \<open>
  And on a client connected over another type, a call finds no promise (it is assigned at
  line 109, after the awaited \<open>disconnect\<close>), so two calls made one after the other both
  call \<open>disconnect\<close> and then each starts an attempt: two attempts are pending at once.
\<close>

lemma switching_callers_two_attempts_in_flight:
  "map snd (callers (run_world [Call (websocket, []), Call (websocket, [])]
      (new_World connected_client))) =
     [AwaitDisconnect (DAtClientClose (Some stdio)), AwaitDisconnect (DAtClientClose (Some stdio))] \<and>
   in_flight (run_world [Call (websocket, []), Call (websocket, []),
      Advance 0, Advance 0, Advance 0, Resume 0, Advance 1, Advance 1, Advance 1, Resume 1]
      (new_World connected_client)) = 2"
  by code_simp

text \<open>
  While that \<open>disconnect\<close> is suspended the client still counts as connected over the
  old type: a call for the old type returns at line 87.
\<close>

lemma call_during_disconnect_sees_connection:
  "map snd (callers (run_world [Call (websocket, []), Call (stdio, cfg_echo)]
      (new_World connected_client))) =
     [AwaitDisconnect (DAtClientClose (Some stdio)), Returned]"
  by code_simp

end
